theory Spec2Isabelle
  imports Complex_Main
begin

section \<open>Values, columns and tables\<close>

text \<open>
  The signal generator works on a pandas data frame of float columns. A cell is modelled
  as an IEEE-style value: a real number, one of the two infinities, or NaN, which is the
  data frame's missing marker. Rounding and overflow are idealised away (finite results
  are exact reals); the special values follow IEEE arithmetic, as numpy's float64 scalars
  do, with a zero divisor read as positive zero.
\<close>

datatype fval = NaN | PInf | NInf | Fin real

datatype error = KeyError | IndexError | UnboundLocalError

fun is_fin :: "fval \<Rightarrow> bool" where
  "is_fin (Fin x) = True"
| "is_fin v = False"

fun the_fin :: "fval \<Rightarrow> real" where
  "the_fin (Fin x) = x"
| "the_fin v = 0"

fun fneg :: "fval \<Rightarrow> fval" where
  "fneg NaN = NaN"
| "fneg PInf = NInf"
| "fneg NInf = PInf"
| "fneg (Fin x) = Fin (- x)"

fun fadd :: "fval \<Rightarrow> fval \<Rightarrow> fval" where
  "fadd (Fin x) (Fin y) = Fin (x + y)"
| "fadd NaN v = NaN"
| "fadd v NaN = NaN"
| "fadd PInf NInf = NaN"
| "fadd NInf PInf = NaN"
| "fadd PInf v = PInf"
| "fadd v PInf = PInf"
| "fadd NInf v = NInf"
| "fadd v NInf = NInf"

definition fsub :: "fval \<Rightarrow> fval \<Rightarrow> fval" where
  "fsub a b = fadd a (fneg b)"

text \<open>The sign of a value: 1, -1, or 0 for a zero; used by multiplication and division.\<close>

fun fsign :: "fval \<Rightarrow> int" where
  "fsign NaN = 0"
| "fsign PInf = 1"
| "fsign NInf = - 1"
| "fsign (Fin x) = (if 0 < x then 1 else if x < 0 then - 1 else 0)"

definition inf_of_sign :: "int \<Rightarrow> fval" where
  "inf_of_sign s = (if 0 < s then PInf else if s < 0 then NInf else NaN)"

fun fmul :: "fval \<Rightarrow> fval \<Rightarrow> fval" where
  "fmul (Fin x) (Fin y) = Fin (x * y)"
| "fmul NaN v = NaN"
| "fmul v NaN = NaN"
| "fmul a b = inf_of_sign (fsign a * fsign b)"

fun fdiv :: "fval \<Rightarrow> fval \<Rightarrow> fval" where
  "fdiv (Fin x) (Fin y) = (if y \<noteq> 0 then Fin (x / y) else inf_of_sign (fsign (Fin x)))"
| "fdiv NaN v = NaN"
| "fdiv v NaN = NaN"
| "fdiv (Fin x) v = Fin 0"
| "fdiv a (Fin y) = inf_of_sign (fsign a * (if y < 0 then - 1 else 1))"
| "fdiv a b = NaN"

text \<open>Comparison: any comparison with NaN is false.\<close>

fun flt :: "fval \<Rightarrow> fval \<Rightarrow> bool" where
  "flt (Fin x) (Fin y) = (x < y)"
| "flt NaN v = False"
| "flt v NaN = False"
| "flt NInf NInf = False"
| "flt NInf v = True"
| "flt v PInf = (v \<noteq> PInf)"
| "flt v w = False"

definition fgt :: "fval \<Rightarrow> fval \<Rightarrow> bool" where
  "fgt a b = flt b a"

type_synonym column = "fval list"

text \<open>
  A data frame: its columns in order, each with its name. The \<open>Date\<close> column holds
  strings and is read by no numeric operation; it is left out of the table and treated by
  \<open>standardizeTimeString\<close> alone. All columns of a table have the same length, and
  the row labels are the positions \<open>0..n-1\<close> (the frame is re-indexed after each
  clean-up in the source).
\<close>

type_synonym table = "(string \<times> column) list"

definition get_col :: "table \<Rightarrow> string \<Rightarrow> error + column" where
  "get_col df name = (case map_of df name of None \<Rightarrow> Inl KeyError | Some c \<Rightarrow> Inr c)"

text \<open>\<open>df[name] = values\<close>: replaces the column in place when it exists, appends it otherwise.\<close>

fun set_col :: "table \<Rightarrow> string \<Rightarrow> column \<Rightarrow> table" where
  "set_col [] name vals = [(name, vals)]"
| "set_col ((k, c) # df) name vals =
     (if k = name then (k, vals) # df else (k, c) # set_col df name vals)"

text \<open>
  \<open>df.columns\<close>, and \<open>df.drop(name, axis = 1)\<close>, which raises when the column is absent.
\<close>

definition columns :: "table \<Rightarrow> string list" where
  "columns df = map fst df"

definition del_col :: "table \<Rightarrow> string \<Rightarrow> table" where
  "del_col df name = filter (\<lambda>kc. fst kc \<noteq> name) df"

definition drop_col :: "table \<Rightarrow> string \<Rightarrow> error + table" where
  "drop_col df name =
     (if name \<in> set (columns df) then Inr (del_col df name) else Inl KeyError)"

definition nrows :: "table \<Rightarrow> nat" where
  "nrows df = (case df of [] \<Rightarrow> 0 | (k, c) # rest \<Rightarrow> length c)"

definition bindE :: "error + 'a \<Rightarrow> ('a \<Rightarrow> error + 'b) \<Rightarrow> error + 'b" where
  "bindE m f = (case m of Inl e \<Rightarrow> Inl e | Inr x \<Rightarrow> f x)"

section \<open>Column operations of pandas and numpy\<close>

text \<open>\<open>Series.shift(k)\<close> for \<open>k \<ge> 0\<close>: values move down by k rows, NaN fills the top.\<close>

definition shift :: "nat \<Rightarrow> column \<Rightarrow> column" where
  "shift k xs = take (length xs) (replicate k NaN @ xs)"

text \<open>The trailing window of w values ending at position i (for \<open>w \<le> i + 1\<close>).\<close>

definition window_at :: "nat \<Rightarrow> column \<Rightarrow> nat \<Rightarrow> column" where
  "window_at w xs i = take w (drop (i + 1 - w) xs)"

definition all_fin :: "column \<Rightarrow> bool" where
  "all_fin xs = list_all is_fin xs"

definition mean_fin :: "column \<Rightarrow> real" where
  "mean_fin xs = sum_list (map the_fin xs) / real (length xs)"

text \<open>
  Sample standard deviation with the N-1 denominator (\<open>ddof = 1\<close>): NaN for fewer than
  two values and whenever a value is not finite.
\<close>

definition sample_std :: "column \<Rightarrow> fval" where
  "sample_std xs =
     (if length xs < 2 \<or> \<not> all_fin xs then NaN
      else Fin (sqrt (sum_list (map (\<lambda>x. (the_fin x - mean_fin xs)\<^sup>2) xs)
                      / real (length xs - 1))))"

text \<open>
  \<open>Series.rolling(window = w).mean()\<close> and \<open>.std()\<close>: \<open>min_periods\<close> defaults to
  the window, so the result is NaN until w values are available and whenever the window
  holds a NaN; pandas turns infinite entries into NaN before it rolls.
\<close>

definition rolling_mean :: "nat \<Rightarrow> column \<Rightarrow> column" where
  "rolling_mean w xs =
     map (\<lambda>i. if 1 \<le> w \<and> w \<le> i + 1 \<and> all_fin (window_at w xs i)
              then Fin (mean_fin (window_at w xs i)) else NaN) [0..<length xs]"

definition rolling_std :: "nat \<Rightarrow> column \<Rightarrow> column" where
  "rolling_std w xs =
     map (\<lambda>i. if 1 \<le> w \<and> w \<le> i + 1 then sample_std (window_at w xs i) else NaN)
       [0..<length xs]"

text \<open>
  \<open>Series.mean()\<close> skips NaN (\<open>skipna = True\<close>): the sum of the values that are not
  NaN over their count, NaN when there is none.
\<close>

definition series_mean :: "column \<Rightarrow> fval" where
  "series_mean xs =
     (let vs = filter (\<lambda>x. x \<noteq> NaN) xs
      in if vs = [] then NaN else fdiv (fold (\<lambda>x s. fadd s x) vs (Fin 0)) (Fin (real (length vs))))"

text \<open>\<open>str(n)\<close> for a non-negative integer: its decimal digits.\<close>

definition digit_char :: "nat \<Rightarrow> char" where
  "digit_char d = ''0123456789'' ! d"

fun str_nat :: "nat \<Rightarrow> string" where
  "str_nat n = (if n < 10 then [digit_char n] else str_nat (n div 10) @ [digit_char (n mod 10)])"

declare str_nat.simps [simp del]

section \<open>Reading and cleaning: date strings\<close>

text \<open>\<open>s.split(c)\<close> for a one-character separator; the result is never empty.\<close>

fun split_on :: "char \<Rightarrow> string \<Rightarrow> string list" where
  "split_on c [] = [[]]"
| "split_on c (x # xs) =
     (if x = c then [] # split_on c xs
      else (case split_on c xs of [] \<Rightarrow> [[x]] | p # ps \<Rightarrow> (x # p) # ps))"

text \<open>\<open>sep.join(parts)\<close>.\<close>

fun join :: "string \<Rightarrow> string list \<Rightarrow> string" where
  "join sep [] = []"
| "join sep [p] = p"
| "join sep (p # q # ps) = p @ sep @ join sep (q # ps)"

text \<open>
  \<open>standardizeTimeString\<close>: the list of parts is bound only in the two branches of the
  test on the separators, so a string with neither separator reaches the first use of the
  unbound name; the parts are read at the indices 0, 1 and 2, and a list of two parts
  raises at index 2 (a string holding a separator always has at least two parts).
\<close>

definition standardizeTimeString :: "string \<Rightarrow> error + string" where
  "standardizeTimeString timeString =
     (let bound =
        (if CHR ''-'' \<in> set timeString then Some (split_on CHR ''-'' timeString)
         else if CHR ''/'' \<in> set timeString then Some (split_on CHR ''/'' timeString)
         else None)
      in case bound of
           None \<Rightarrow> Inl UnboundLocalError
         | Some timeStringList \<Rightarrow>
             if length timeStringList < 3 then Inl IndexError
             else
               (let add_zero = (if length (timeStringList ! 1) = 1 then ''0'' else '''');
                    add_zero2 = (if length (timeStringList ! 2) = 1 then ''0'' else '''')
                in Inr (join ''/'' [timeStringList ! 0, add_zero @ timeStringList ! 1,
                                    add_zero2 @ timeStringList ! 2])))"

definition is_digit :: "char \<Rightarrow> bool" where
  "is_digit c = (c \<in> set ''0123456789'')"

text \<open>The canonical form: four digits, a slash, two digits, a slash, two digits.\<close>

definition is_canonical_date :: "string \<Rightarrow> bool" where
  "is_canonical_date s =
     (length s = 10 \<and> s ! 4 = CHR ''/'' \<and> s ! 7 = CHR ''/'' \<and>
      list_all is_digit (take 4 s) \<and> list_all is_digit (take 2 (drop 5 s)) \<and>
      list_all is_digit (drop 8 s))"

section \<open>Row-wise application and assignment\<close>

text \<open>
  \<open>df.apply(lambda row: ..., axis = 1)\<close> evaluates the function on every row; reading
  a column that the frame does not have raises \<open>KeyError\<close>. The columns of a frame
  have one length, so the rows are the columns zipped; the frame is taken to have at
  least one row. \<open>assign\<close> is \<open>df[name] = ...\<close> for a right-hand side that may raise.
\<close>

definition apply2 :: "table \<Rightarrow> string \<Rightarrow> string \<Rightarrow> (fval \<Rightarrow> fval \<Rightarrow> fval) \<Rightarrow> error + column" where
  "apply2 df a b f =
     bindE (get_col df a) (\<lambda>ca. bindE (get_col df b) (\<lambda>cb.
       Inr (map (\<lambda>(x, y). f x y) (zip ca cb))))"

definition apply3 :: "table \<Rightarrow> string \<Rightarrow> string \<Rightarrow> string \<Rightarrow>
    (fval \<Rightarrow> fval \<Rightarrow> fval \<Rightarrow> fval) \<Rightarrow> error + column" where
  "apply3 df a b c f =
     bindE (get_col df a) (\<lambda>ca. bindE (get_col df b) (\<lambda>cb. bindE (get_col df c) (\<lambda>cc.
       Inr (map (\<lambda>(x, y, z). f x y z) (zip ca (zip cb cc))))))"

definition assign :: "table \<Rightarrow> string \<Rightarrow> error + column \<Rightarrow> error + table" where
  "assign df name m = bindE m (\<lambda>c. Inr (set_col df name c))"

section \<open>Daily returns\<close>

definition calEndOfDayRet :: "table \<Rightarrow> string \<Rightarrow> error + table" where
  "calEndOfDayRet df col =
     bindE (assign df ''past_Close'' (bindE (get_col df col) (\<lambda>c. Inr (shift 1 c)))) (\<lambda>df1.
     bindE (assign df1 ''eodRet''
              (apply2 df1 ''Close'' ''past_Close'' (\<lambda>cl pc. fsub (fdiv cl pc) (Fin 1)))) (\<lambda>df2.
     drop_col df2 ''past_Close''))"

section \<open>Moving averages\<close>

definition calSMA :: "table \<Rightarrow> nat \<Rightarrow> string \<Rightarrow> error + table" where
  "calSMA df period col =
     assign df (''SMA_'' @ str_nat period)
       (bindE (get_col df col) (\<lambda>c. Inr (rolling_mean period c)))"

text \<open>
  One pass of the loop of \<open>calEMA\<close>, at loop index i: the cell at \<open>period + i\<close> is
  written from the cell before it and the source value.
\<close>

definition ema_step :: "real \<Rightarrow> nat \<Rightarrow> column \<Rightarrow> nat \<Rightarrow> column \<Rightarrow> column" where
  "ema_step k period src i ema =
     ema[period + i := fadd (fmul (ema ! (period + i - 1)) (Fin (1 - k)))
                            (fmul (src ! (period + i)) (Fin k))]"

text \<open>
  \<open>calEMA\<close>: the weight is \<open>numerator / (period + 1)\<close> in Python 3's true division;
  \<open>df.reset_index()\<close> returns a new frame that is dropped, so it changes nothing. The
  column is first filled with NaN, the seed is written at the label \<open>period - 1\<close>, and
  the loop runs over \<open>range(len - period)\<close>. The seed is read and written by label:
  with a period of 0 or one beyond the number of rows a label is absent from the index
  and the access raises \<open>KeyError\<close>.
\<close>

definition calEMA :: "table \<Rightarrow> nat \<Rightarrow> string \<Rightarrow> real \<Rightarrow> error + table" where
  "calEMA df period col numerator =
     (let k = numerator / (real period + 1);
          col_name = ''EMA_'' @ str_nat period;
          df1 = set_col df col_name (replicate (nrows df) NaN)
      in bindE (get_col df1 col) (\<lambda>src.
           if period = 0 \<or> length src < period then Inl KeyError
           else
             (let seeded = (replicate (nrows df) NaN)[period - 1 := series_mean (take period src)]
              in Inr (set_col df1 col_name
                        (fold (ema_step k period src) [0..<length src - period] seeded)))))"

section \<open>Moving volatility and downside volatility\<close>

definition calMV :: "table \<Rightarrow> nat \<Rightarrow> string \<Rightarrow> error + table" where
  "calMV df period col =
     assign df (''MV_'' @ str_nat period)
       (bindE (get_col df col) (\<lambda>c. Inr (rolling_std period c)))"

text \<open>
  \<open>calSortinoMV\<close> builds \<open>result_list\<close> from the negative values of each window and
  returns it; the column it stores in the frame is the rolling standard deviation of the
  whole window. The model returns both: the list and the updated frame.
\<close>

definition calSortinoMV :: "table \<Rightarrow> nat \<Rightarrow> string \<Rightarrow> error + (column \<times> table)" where
  "calSortinoMV df period col =
     bindE (get_col df col) (\<lambda>whole_data.
       (let result_list =
              replicate (period - 1) NaN @
              map (\<lambda>k. sample_std (filter (\<lambda>ret. flt ret (Fin 0)) (take period (drop k whole_data))))
                [0..<nrows df + 1 - period]
        in Inr (result_list,
                set_col df (''Sortino_MV_'' @ str_nat period) (rolling_std period whole_data))))"

section \<open>Previous average day range\<close>

definition calPreviousDayrange :: "table \<Rightarrow> nat \<Rightarrow> error + table" where
  "calPreviousDayrange df period =
     bindE (assign df ''Dayrange'' (apply2 df ''High'' ''Low'' (\<lambda>h l. fsub h l))) (\<lambda>df1.
     bindE (assign df1 ''temp''
              (bindE (get_col df1 ''Dayrange'') (\<lambda>c. Inr (rolling_mean period c)))) (\<lambda>df2.
     bindE (assign df2 (''Prev_'' @ str_nat period @ ''_AvDayrange'')
              (bindE (get_col df2 ''temp'') (\<lambda>c. Inr (shift 1 c)))) (\<lambda>df3.
     drop_col df3 ''temp'')))"

section \<open>Z-scores\<close>

text \<open>Python's \<open>sub in s\<close> on strings: sub occurs in s as a contiguous block.\<close>

fun contains :: "string \<Rightarrow> string \<Rightarrow> bool" where
  "contains sub [] = (sub = [])"
| "contains sub (c # cs) = (take (length sub) (c # cs) = sub \<or> contains sub cs)"

text \<open>
  The body shared by \<open>zCol\<close>, \<open>zzCol\<close> and \<open>zzzCol\<close>, which differ in the prefix of
  the column they write and in their default window only. A column whose name contains
  \<open>z_\<close> is skipped: the function returns before it touches the frame.
\<close>

definition z_body :: "string \<Rightarrow> table \<Rightarrow> string \<Rightarrow> nat \<Rightarrow> error + table" where
  "z_body prefix df col norm_period =
     (if contains ''z_'' col then Inr df
      else
        bindE (assign df ''temp_base_mean''
                 (bindE (get_col df col) (\<lambda>c. Inr (rolling_mean norm_period c)))) (\<lambda>df1.
        bindE (assign df1 ''temp_base_mean''
                 (bindE (get_col df1 ''temp_base_mean'') (\<lambda>c. Inr (shift 1 c)))) (\<lambda>df2.
        bindE (assign df2 ''temp_base_std''
                 (bindE (get_col df2 col) (\<lambda>c. Inr (rolling_std norm_period c)))) (\<lambda>df3.
        bindE (assign df3 ''temp_base_std''
                 (bindE (get_col df3 ''temp_base_std'') (\<lambda>c. Inr (shift 1 c)))) (\<lambda>df4.
        assign df4 (prefix @ col)
          (apply3 df4 col ''temp_base_mean'' ''temp_base_std''
             (\<lambda>x m s. fdiv (fsub x m) s)))))))"

definition zCol :: "table \<Rightarrow> string \<Rightarrow> nat \<Rightarrow> error + table" where
  "zCol df col norm_period = z_body ''z_'' df col norm_period"

definition zzCol :: "table \<Rightarrow> string \<Rightarrow> nat \<Rightarrow> error + table" where
  "zzCol df col norm_period = z_body ''zz_'' df col norm_period"

definition zzzCol :: "table \<Rightarrow> string \<Rightarrow> nat \<Rightarrow> error + table" where
  "zzzCol df col norm_period = z_body ''zzz_'' df col norm_period"

section \<open>Trend-following strategies\<close>

text \<open>
  The moving-average column is computed only when the frame does not have it; an unknown
  type of average prints a message and leaves the frame as it is.
\<close>

definition ensure_MA :: "table \<Rightarrow> nat \<Rightarrow> string \<Rightarrow> string \<Rightarrow> error + table" where
  "ensure_MA df P MA_type col =
     (if MA_type @ ''_'' @ str_nat P \<notin> set (columns df) then
        (if MA_type = ''SMA'' then calSMA df P col
         else if MA_type = ''EMA'' then calEMA df P col 2
         else Inr df)
      else Inr df)"

definition create_FS_ret :: "table \<Rightarrow> nat \<Rightarrow> nat \<Rightarrow> string \<Rightarrow> string \<Rightarrow> error + table" where
  "create_FS_ret df F S MA_type col =
     (let f_col = MA_type @ ''_'' @ str_nat F;
          s_col = MA_type @ ''_'' @ str_nat S;
          signal_col = MA_type @ ''_'' @ str_nat F @ ''_'' @ str_nat S @ ''_Signal'';
          return_col = MA_type @ ''_'' @ str_nat F @ ''_'' @ str_nat S @ ''_Return''
      in
        bindE (ensure_MA df F MA_type col) (\<lambda>df1.
        bindE (ensure_MA df1 S MA_type col) (\<lambda>df2.
        bindE (assign df2 signal_col
                 (apply2 df2 f_col s_col (\<lambda>f s. if fgt f s then Fin 1 else Fin (- 1)))) (\<lambda>df3.
        bindE (assign df3 signal_col
                 (bindE (get_col df3 signal_col) (\<lambda>c. Inr (shift 1 c)))) (\<lambda>df4.
        bindE (calEndOfDayRet df4 ''Close'') (\<lambda>df5.
        assign df5 return_col (apply2 df5 signal_col ''eodRet'' (\<lambda>sg r. fmul sg r))))))))"

section \<open>Counter-trend strategies\<close>

text \<open>The two columns added before the sweep: yesterday's high and low.\<close>

definition add_prev_high_low :: "table \<Rightarrow> error + table" where
  "add_prev_high_low df =
     bindE (assign df ''Prev_high'' (bindE (get_col df ''High'') (\<lambda>c. Inr (shift 1 c)))) (\<lambda>df1.
     assign df1 ''Prev_low'' (bindE (get_col df1 ''Low'') (\<lambda>c. Inr (shift 1 c))))"

text \<open>The row functions of \<open>create_CT_ret\<close>, one per lambda of the source.\<close>

definition long_hit_level :: "real \<Rightarrow> fval \<Rightarrow> fval \<Rightarrow> fval" where
  "long_hit_level retracement prev_high av = fsub prev_high (fmul av (Fin retracement))"

definition long_hit :: "fval \<Rightarrow> fval \<Rightarrow> fval" where
  "long_hit low hit_level = (if flt low hit_level then Fin 1 else Fin 0)"

definition long_hit_at :: "fval \<Rightarrow> fval \<Rightarrow> fval \<Rightarrow> fval" where
  "long_hit_at opn hit_level hit =
     (if flt opn hit_level then fmul opn hit else fmul hit_level hit)"

definition short_hit_level :: "real \<Rightarrow> fval \<Rightarrow> fval \<Rightarrow> fval" where
  "short_hit_level retracement prev_low av = fadd prev_low (fmul av (Fin retracement))"

definition short_hit :: "fval \<Rightarrow> fval \<Rightarrow> fval" where
  "short_hit high hit_level = (if fgt high hit_level then Fin 1 else Fin 0)"

definition short_hit_at :: "fval \<Rightarrow> fval \<Rightarrow> fval \<Rightarrow> fval" where
  "short_hit_at opn hit_level hit =
     (if fgt opn hit_level then fmul opn hit else fmul hit_level hit)"

definition exit_pr :: "fval \<Rightarrow> fval \<Rightarrow> fval" where
  "exit_pr cl hit = fmul cl hit"

definition ct_return :: "fval \<Rightarrow> fval \<Rightarrow> fval \<Rightarrow> fval" where
  "ct_return exitPr hitAt hit = (if hit = Fin 1 then fsub (fdiv exitPr hitAt) (Fin 1) else Fin 0)"

text \<open>
  \<open>create_CT_ret\<close>. The names of the columns it writes hold \<open>str(retracement)\<close>, the
  text Python prints for the float; that text is the parameter \<open>rname\<close>.
\<close>

definition create_CT_ret :: "table \<Rightarrow> nat \<Rightarrow> real \<Rightarrow> string \<Rightarrow> error + table" where
  "create_CT_ret df period retracement rname =
     (let av = ''Prev_'' @ str_nat period @ ''_AvDayrange'';
          tag = str_nat period @ ''_'' @ rname
      in
        bindE (assign df ''Hit_level''
                 (apply2 df ''Prev_high'' av (long_hit_level retracement))) (\<lambda>d1.
        bindE (assign d1 ''Hit?'' (apply2 d1 ''Low'' ''Hit_level'' long_hit)) (\<lambda>d2.
        bindE (assign d2 ''HitAt'' (apply3 d2 ''Open'' ''Hit_level'' ''Hit?'' long_hit_at)) (\<lambda>d3.
        bindE (assign d3 ''ExitPr'' (apply2 d3 ''Close'' ''Hit?'' exit_pr)) (\<lambda>d4.
        bindE (assign d4 (''Long_'' @ tag @ ''_Return'')
                 (apply3 d4 ''ExitPr'' ''HitAt'' ''Hit?'' ct_return)) (\<lambda>d5.
        bindE (assign d5 (''Hit?_long_'' @ tag) (get_col d5 ''Hit?'')) (\<lambda>d6.
        bindE (assign d6 ''Hit_level''
                 (apply2 d6 ''Prev_low'' av (short_hit_level retracement))) (\<lambda>d7.
        bindE (assign d7 ''Hit?'' (apply2 d7 ''High'' ''Hit_level'' short_hit)) (\<lambda>d8.
        bindE (assign d8 ''HitAt'' (apply3 d8 ''Open'' ''Hit_level'' ''Hit?'' short_hit_at)) (\<lambda>d9.
        bindE (assign d9 ''ExitPr'' (apply2 d9 ''Close'' ''Hit?'' exit_pr)) (\<lambda>d10.
        bindE (assign d10 (''Short_'' @ tag @ ''_Return'')
                 (apply3 d10 ''ExitPr'' ''HitAt'' ''Hit?'' ct_return)) (\<lambda>d11.
        bindE (assign d11 (''Hit?_short_'' @ tag) (get_col d11 ''Hit?'')) (\<lambda>d12.
        bindE (drop_col d12 ''Hit_level'') (\<lambda>d13.
        bindE (drop_col d13 ''Hit?'') (\<lambda>d14.
        bindE (drop_col d14 ''HitAt'') (\<lambda>d15.
        drop_col d15 ''ExitPr''))))))))))))))))"

section \<open>Frames of the counter-trend sweep\<close>

text \<open>
  The frame \<open>create_CT_ret\<close> reads: the four price columns and the lagged average day
  range of the period, then yesterday's high and low, all of n rows; and the four columns
  it leaves in the frame for a period and a retracement.
\<close>

definition ohlc_frame ::
  "table \<Rightarrow> nat \<Rightarrow> nat \<Rightarrow> column \<Rightarrow> column \<Rightarrow> column \<Rightarrow> column \<Rightarrow> column \<Rightarrow> bool" where
  "ohlc_frame df period n opn high low cl av \<longleftrightarrow>
     get_col df ''Open'' = Inr opn \<and> get_col df ''High'' = Inr high \<and>
     get_col df ''Low'' = Inr low \<and> get_col df ''Close'' = Inr cl \<and>
     get_col df (''Prev_'' @ str_nat period @ ''_AvDayrange'') = Inr av \<and>
     length opn = n \<and> length high = n \<and> length low = n \<and> length cl = n \<and> length av = n"

definition ct_frame ::
  "table \<Rightarrow> nat \<Rightarrow> nat \<Rightarrow> column \<Rightarrow> column \<Rightarrow> column \<Rightarrow> column \<Rightarrow> column \<Rightarrow>
     column \<Rightarrow> column \<Rightarrow> bool" where
  "ct_frame df period n opn high low cl av ph pl \<longleftrightarrow>
     ohlc_frame df period n opn high low cl av \<and>
     get_col df ''Prev_high'' = Inr ph \<and> get_col df ''Prev_low'' = Inr pl \<and>
     length ph = n \<and> length pl = n"

definition ct_outputs ::
  "table \<Rightarrow> nat \<Rightarrow> string \<Rightarrow> nat \<Rightarrow> column \<Rightarrow> column \<Rightarrow> column \<Rightarrow> column \<Rightarrow> bool" where
  "ct_outputs df period rname n hit_long ret_long hit_short ret_short \<longleftrightarrow>
     get_col df (''Hit?_long_'' @ str_nat period @ ''_'' @ rname) = Inr hit_long \<and>
     get_col df (''Long_'' @ str_nat period @ ''_'' @ rname @ ''_Return'') = Inr ret_long \<and>
     get_col df (''Hit?_short_'' @ str_nat period @ ''_'' @ rname) = Inr hit_short \<and>
     get_col df (''Short_'' @ str_nat period @ ''_'' @ rname @ ''_Return'') = Inr ret_short \<and>
     length hit_long = n \<and> length ret_long = n \<and> length hit_short = n \<and>
     length ret_short = n"

section \<open>Frames that agree before a row\<close>

text \<open>
  Two columns agree up to t when they have one length and the same first t values; two
  frames agree before row t when they have the same column names, in the same order, and
  their columns agree up to t. The names of the signal column of a strategy and of the
  lagged average day range of a period are those the source builds.
\<close>

definition agree_upto :: "nat \<Rightarrow> column \<Rightarrow> column \<Rightarrow> bool" where
  "agree_upto t c c' \<longleftrightarrow> length c = length c' \<and> take t c = take t c'"

definition frames_agree :: "nat \<Rightarrow> table \<Rightarrow> table \<Rightarrow> bool" where
  "frames_agree t df df' \<longleftrightarrow>
     list_all2 (\<lambda>kc kc'. fst kc = fst kc' \<and> agree_upto t (snd kc) (snd kc')) df df'"

definition signal_col :: "string \<Rightarrow> nat \<Rightarrow> nat \<Rightarrow> string" where
  "signal_col MA_type F S = MA_type @ ''_'' @ str_nat F @ ''_'' @ str_nat S @ ''_Signal''"

definition av_col :: "nat \<Rightarrow> string" where
  "av_col period = ''Prev_'' @ str_nat period @ ''_AvDayrange''"

section \<open>Basic facts about tables\<close>

lemma get_col_set_col: "get_col (set_col df n v) m = (if m = n then Inr v else get_col df m)"
  by (induction df n v rule: set_col.induct) (auto simp: get_col_def)

lemma columns_set_col: "set (columns (set_col df n v)) = insert n (set (columns df))"
  by (induction df n v rule: set_col.induct) (auto simp: columns_def)

lemma get_col_del_col:
  "get_col (del_col df n) m = (if m = n then Inl KeyError else get_col df m)"
  by (induction df) (auto simp: get_col_def del_col_def)

lemma columns_del_col: "set (columns (del_col df n)) = set (columns df) - {n}"
  by (auto simp: columns_def del_col_def)

lemma get_col_columns: "get_col df n = Inr c \<Longrightarrow> n \<in> set (columns df)"
  by (auto simp: get_col_def columns_def split: option.splits dest: map_of_SomeD
      intro: rev_image_eqI)

lemmas table_simps = get_col_set_col columns_set_col get_col_del_col columns_del_col

section \<open>Basic facts about values and names\<close>

lemma singleton_nth: "length xs = 1 \<Longrightarrow> xs ! 0 = v \<Longrightarrow> xs = [v]"
  by (cases xs) auto

lemma fmul_one: "fmul v (Fin 1) = v"
  by (cases v) (simp_all add: inf_of_sign_def)

lemma flt_NaN_right: "flt v NaN = False"
  by (cases v) simp_all

lemma fadd_NaN_right: "fadd v NaN = NaN"
  by (cases v) simp_all

lemma digit_char_is_digit: "n < 10 \<Longrightarrow> is_digit (digit_char n)"
proof -
  assume "n < 10"
  then have "n \<in> {0, 1, 2, 3, 4, 5, 6, 7, 8, 9}" by auto
  then show ?thesis by (auto simp: is_digit_def digit_char_def)
qed

lemma str_nat_digits: "str_nat n \<noteq> [] \<and> list_all is_digit (str_nat n)"
proof (induction n rule: str_nat.induct)
  case (1 n)
  show ?case
  proof (cases "n < 10")
    case True
    then show ?thesis by (subst str_nat.simps, subst str_nat.simps) (simp add: digit_char_is_digit)
  next
    case False
    with 1 show ?thesis
      by (subst str_nat.simps, subst (2) str_nat.simps) (simp add: digit_char_is_digit)
  qed
qed

lemma str_nat_head: "\<not> is_digit c \<Longrightarrow> str_nat n @ s \<noteq> c # t"
  using str_nat_digits[of n] by (cases "str_nat n") auto

section \<open>Date strings\<close>

lemma split_on_no_sep: "c \<notin> set s \<Longrightarrow> split_on c s = [s]"
  by (induction s) auto

lemma split_on_append: "c \<notin> set a \<Longrightarrow> split_on c (a @ c # b) = a # split_on c b"
  by (induction a) auto

lemma digit_not_sep: "is_digit c \<Longrightarrow> c \<noteq> CHR ''-'' \<and> c \<noteq> CHR ''/''"
  by (auto simp: is_digit_def)

lemma digits_no_sep:
  "list_all is_digit s \<Longrightarrow> CHR ''-'' \<notin> set s \<and> CHR ''/'' \<notin> set s"
  by (induction s) (auto dest: digit_not_sep)

lemma standardize_parts:
  assumes "CHR ''-'' \<in> set s \<and> split_on CHR ''-'' s = [y, m, d] \<or>
           CHR ''-'' \<notin> set s \<and> CHR ''/'' \<in> set s \<and> split_on CHR ''/'' s = [y, m, d]"
  shows "standardizeTimeString s =
           Inr (y @ ''/'' @ (if length m = 1 then ''0'' else '''') @ m @ ''/'' @
                (if length d = 1 then ''0'' else '''') @ d)"
  using assms unfolding standardizeTimeString_def Let_def
  by (elim disjE conjE) simp_all

lemma standardize_year_first:
  assumes sep: "sep = CHR ''-'' \<or> sep = CHR ''/''"
    and dy: "list_all is_digit y" and dm: "list_all is_digit m" and dd: "list_all is_digit d"
  shows "standardizeTimeString (y @ sep # m @ sep # d) =
           Inr (y @ ''/'' @ (if length m = 1 then ''0'' else '''') @ m @ ''/'' @
                (if length d = 1 then ''0'' else '''') @ d)"
proof -
  have ny: "sep \<notin> set y" and nm: "sep \<notin> set m" and nd: "sep \<notin> set d"
    using sep digits_no_sep[OF dy] digits_no_sep[OF dm] digits_no_sep[OF dd] by auto
  have parts: "split_on sep (y @ sep # m @ sep # d) = [y, m, d]"
    using split_on_append[OF ny, of "m @ sep # d"] split_on_append[OF nm, of d]
      split_on_no_sep[OF nd]
    by simp
  have nodash: "sep = CHR ''/'' \<Longrightarrow> CHR ''-'' \<notin> set (y @ sep # m @ sep # d)"
    using digits_no_sep[OF dy] digits_no_sep[OF dm] digits_no_sep[OF dd] by auto
  have insep: "sep \<in> set (y @ sep # m @ sep # d)" by simp
  show ?thesis
    by (rule standardize_parts) (use sep parts nodash insep in blast)
qed

lemma canonical_built:
  assumes dy: "list_all is_digit y" and dm: "list_all is_digit m" and dd: "list_all is_digit d"
    and ly: "length y = 4" and lm: "length m = 1 \<or> length m = 2"
    and ld: "length d = 1 \<or> length d = 2"
  shows "is_canonical_date (y @ ''/'' @ (if length m = 1 then ''0'' else '''') @ m @ ''/'' @
                (if length d = 1 then ''0'' else '''') @ d)"
proof -
  define mm where "mm = (if length m = 1 then ''0'' else '''') @ m"
  define ddd where "ddd = (if length d = 1 then ''0'' else '''') @ d"
  have m2: "length mm = 2" "list_all is_digit mm"
    using lm dm by (auto simp: mm_def is_digit_def)
  have d2: "length ddd = 2" "list_all is_digit ddd"
    using ld dd by (auto simp: ddd_def is_digit_def)
  have "is_canonical_date (y @ ''/'' @ mm @ ''/'' @ ddd)"
    using ly dy m2 d2 by (simp add: is_canonical_date_def nth_append)
  then show ?thesis by (simp add: mm_def ddd_def)
qed

text \<open>
  Claim C2, as the code has it. The fields are never reordered: a string written year
  first, \<open>Y-M-D\<close> or \<open>Y/M/D\<close> with a year of four digits and a month and a day of one
  or two digits, comes back as \<open>YYYY/MM/DD\<close>, a month or day of one digit padded with a
  zero; a string that holds neither separator fails, with Python's error for the name
  that was never bound.
\<close>

theorem standardizeTimeString_year_first:
  "((sep = CHR ''-'' \<or> sep = CHR ''/'') \<and> list_all is_digit y \<and> list_all is_digit m \<and>
     list_all is_digit d \<and> length y = 4 \<and> (length m = 1 \<or> length m = 2) \<and>
     (length d = 1 \<or> length d = 2) \<longrightarrow>
     (\<exists>out. standardizeTimeString (y @ sep # m @ sep # d) = Inr out \<and>
        out = y @ ''/'' @ (if length m = 1 then ''0'' else '''') @ m @ ''/'' @
                (if length d = 1 then ''0'' else '''') @ d \<and>
        is_canonical_date out)) \<and>
   (CHR ''-'' \<notin> set s \<and> CHR ''/'' \<notin> set s \<longrightarrow>
      standardizeTimeString s = Inl UnboundLocalError)"
proof (intro conjI impI)
  assume h: "(sep = CHR ''-'' \<or> sep = CHR ''/'') \<and> list_all is_digit y \<and> list_all is_digit m \<and>
     list_all is_digit d \<and> length y = 4 \<and> (length m = 1 \<or> length m = 2) \<and>
     (length d = 1 \<or> length d = 2)"
  from h standardize_year_first[of sep y m d] canonical_built[of y m d]
  show "\<exists>out. standardizeTimeString (y @ sep # m @ sep # d) = Inr out \<and>
        out = y @ ''/'' @ (if length m = 1 then ''0'' else '''') @ m @ ''/'' @
                (if length d = 1 then ''0'' else '''') @ d \<and>
        is_canonical_date out"
    by blast
next
  assume "CHR ''-'' \<notin> set s \<and> CHR ''/'' \<notin> set s"
  then show "standardizeTimeString s = Inl UnboundLocalError"
    by (simp add: standardizeTimeString_def)
qed

theorem standardizeTimeString_year_first_witness:
  "standardizeTimeString ''1997-9-5'' = Inr ''1997/09/05'' \<and>
   is_canonical_date ''1997/09/05'' \<and>
   standardizeTimeString ''19970905'' = Inl UnboundLocalError"
  using standardizeTimeString_year_first
    [of "CHR ''-''" "''1997''" "''9''" "''5''" "''19970905''"]
  by (simp add: is_digit_def)

text \<open>
  Claim C2 as stated fails on a date written month first: the string is returned with
  its fields where they were, which is not the canonical form.
\<close>

theorem standardizeTimeString_month_first_counterexample:
  "standardizeTimeString ''9/10/1997'' = Inr ''9/10/1997'' \<and>
   \<not> is_canonical_date ''9/10/1997''"
  by (simp add: standardizeTimeString_def is_canonical_date_def)

section \<open>Normalisation skips normalised columns\<close>

lemma contains_prefix: "contains sub (sub @ post)"
proof (cases "sub @ post")
  case Nil
  then show ?thesis by simp
next
  case (Cons a list)
  have "take (length sub) (sub @ post) = sub" by simp
  with Cons show ?thesis by simp
qed

lemma contains_append: "contains sub (pre @ sub @ post)"
  by (induction pre) (auto simp: contains_prefix)

text \<open>
  Claim C7. A column whose name contains \<open>z_\<close>, as every column written by \<open>zCol\<close>,
  \<open>zzCol\<close> and \<open>zzzCol\<close> does, is skipped by all three: the frame that comes back is
  the frame that went in, with no column added and none changed.
\<close>

theorem zCol_skips_normalized:
  "(contains ''z_'' col \<longrightarrow>
      zCol df col p = Inr df \<and> zzCol df col p = Inr df \<and> zzzCol df col p = Inr df) \<and>
   contains ''z_'' (''z_'' @ c) \<and> contains ''z_'' (''zz_'' @ c) \<and>
   contains ''z_'' (''zzz_'' @ c)"
proof -
  have "contains ''z_'' (''zz_'' @ c)"
    using contains_append[of "''z_''" "''z''" c] by simp
  moreover have "contains ''z_'' (''zzz_'' @ c)"
    using contains_append[of "''z_''" "''zz''" c] by simp
  ultimately show ?thesis
    by (simp add: zCol_def zzCol_def zzzCol_def z_body_def)
qed

theorem zCol_skips_normalized_witness:
  "zCol [(''Close'', [Fin 1, Fin 2]), (''z_Close'', [NaN, NaN])] ''z_Close'' 20 =
     Inr [(''Close'', [Fin 1, Fin 2]), (''z_Close'', [NaN, NaN])]"
  using zCol_skips_normalized
    [of "''z_Close''" "[(''Close'', [Fin 1, Fin 2]), (''z_Close'', [NaN, NaN])]" 20]
  by simp

section \<open>Counter-trend strategies: hits and returns\<close>

lemma create_CT_ret_columns:
  assumes "ct_frame df period n opn high low cl av ph pl"
  shows "\<exists>df' hit_long ret_long hit_short ret_short.
     create_CT_ret df period r rname = Inr df' \<and>
     ct_outputs df' period rname n hit_long ret_long hit_short ret_short \<and>
     (\<forall>i<n. hit_long ! i = long_hit (low ! i) (long_hit_level r (ph ! i) (av ! i)) \<and>
            ret_long ! i =
              ct_return (exit_pr (cl ! i) (hit_long ! i))
                (long_hit_at (opn ! i) (long_hit_level r (ph ! i) (av ! i)) (hit_long ! i))
                (hit_long ! i) \<and>
            hit_short ! i = short_hit (high ! i) (short_hit_level r (pl ! i) (av ! i)) \<and>
            ret_short ! i =
              ct_return (exit_pr (cl ! i) (hit_short ! i))
                (short_hit_at (opn ! i) (short_hit_level r (pl ! i) (av ! i)) (hit_short ! i))
                (hit_short ! i))"
  using assms unfolding ct_frame_def ohlc_frame_def ct_outputs_def
  by (simp add: create_CT_ret_def Let_def assign_def apply2_def apply3_def bindE_def
       drop_col_def table_simps)

text \<open>
  Claim C8. On a frame that holds the columns the generator reads, \<open>create_CT_ret\<close>
  succeeds for every period, retracement and direction; each hit flag is 0 or 1, and in
  every row whose hit flag is 0 the return of that direction is the number 0, not NaN.
\<close>

theorem create_CT_ret_no_hit_zero_return:
  assumes "ct_frame df period n opn high low cl av ph pl"
  shows "\<exists>df' hit_long ret_long hit_short ret_short.
     create_CT_ret df period r rname = Inr df' \<and>
     ct_outputs df' period rname n hit_long ret_long hit_short ret_short \<and>
     (\<forall>i<n. (hit_long ! i = Fin 0 \<or> hit_long ! i = Fin 1) \<and>
            (hit_short ! i = Fin 0 \<or> hit_short ! i = Fin 1) \<and>
            (hit_long ! i = Fin 0 \<longrightarrow> ret_long ! i = Fin 0) \<and>
            (hit_short ! i = Fin 0 \<longrightarrow> ret_short ! i = Fin 0))"
proof -
  from create_CT_ret_columns[OF assms, of r rname]
  obtain df' hit_long ret_long hit_short ret_short where
    res: "create_CT_ret df period r rname = Inr df'"
      "ct_outputs df' period rname n hit_long ret_long hit_short ret_short"
    and rows: "\<And>i. i < n \<Longrightarrow>
            hit_long ! i = long_hit (low ! i) (long_hit_level r (ph ! i) (av ! i)) \<and>
            ret_long ! i =
              ct_return (exit_pr (cl ! i) (hit_long ! i))
                (long_hit_at (opn ! i) (long_hit_level r (ph ! i) (av ! i)) (hit_long ! i))
                (hit_long ! i) \<and>
            hit_short ! i = short_hit (high ! i) (short_hit_level r (pl ! i) (av ! i)) \<and>
            ret_short ! i =
              ct_return (exit_pr (cl ! i) (hit_short ! i))
                (short_hit_at (opn ! i) (short_hit_level r (pl ! i) (av ! i)) (hit_short ! i))
                (hit_short ! i)"
    by blast
  have "(hit_long ! i = Fin 0 \<or> hit_long ! i = Fin 1) \<and>
            (hit_short ! i = Fin 0 \<or> hit_short ! i = Fin 1) \<and>
            (hit_long ! i = Fin 0 \<longrightarrow> ret_long ! i = Fin 0) \<and>
            (hit_short ! i = Fin 0 \<longrightarrow> ret_short ! i = Fin 0)" if "i < n" for i
  proof -
    have a: "hit_long ! i = Fin 0 \<or> hit_long ! i = Fin 1"
      using rows[OF that] by (simp add: long_hit_def)
    have b: "hit_short ! i = Fin 0 \<or> hit_short ! i = Fin 1"
      using rows[OF that] by (simp add: short_hit_def)
    have c: "hit_long ! i = Fin 0 \<longrightarrow> ret_long ! i = Fin 0"
      using rows[OF that] by (simp add: ct_return_def)
    have d: "hit_short ! i = Fin 0 \<longrightarrow> ret_short ! i = Fin 0"
      using rows[OF that] by (simp add: ct_return_def)
    from a b c d show ?thesis by blast
  qed
  with res show ?thesis by blast
qed

theorem create_CT_ret_no_hit_zero_return_witness:
  "ct_frame
      [(''Open'', [Fin 99]), (''High'', [Fin 103]), (''Low'', [Fin 98]), (''Close'', [Fin 102]),
       (''Prev_10_AvDayrange'', [Fin 5]), (''Prev_high'', [Fin 110]), (''Prev_low'', [Fin 100])]
      10 1 [Fin 99] [Fin 103] [Fin 98] [Fin 102] [Fin 5] [Fin 110] [Fin 100] \<and>
   (\<exists>df'. create_CT_ret
      [(''Open'', [Fin 99]), (''High'', [Fin 103]), (''Low'', [Fin 98]), (''Close'', [Fin 102]),
       (''Prev_10_AvDayrange'', [Fin 5]), (''Prev_high'', [Fin 110]), (''Prev_low'', [Fin 100])]
      10 2 ''2.0'' = Inr df' \<and>
     get_col df' ''Hit?_short_10_2.0'' = Inr [Fin 0] \<and>
     get_col df' ''Short_10_2.0_Return'' = Inr [Fin 0])"
proof -
  let ?df = "[(''Open'', [Fin 99]), (''High'', [Fin 103]), (''Low'', [Fin 98]), (''Close'', [Fin 102]),
       (''Prev_10_AvDayrange'', [Fin 5]), (''Prev_high'', [Fin 110]), (''Prev_low'', [Fin 100])]"
  have s10: "str_nat 10 = ''10''"
    by (simp add: str_nat.simps digit_char_def)
  have fr: "ct_frame ?df 10 1 [Fin 99] [Fin 103] [Fin 98] [Fin 102] [Fin 5] [Fin 110] [Fin 100]"
    by (simp add: ct_frame_def ohlc_frame_def get_col_def s10)
  from create_CT_ret_no_hit_zero_return[OF fr, of 2 "''2.0''"]
  obtain df' hit_long ret_long hit_short ret_short where
    res: "create_CT_ret ?df 10 2 ''2.0'' = Inr df'"
      "ct_outputs df' 10 ''2.0'' 1 hit_long ret_long hit_short ret_short"
      "hit_short ! 0 = Fin 0 \<longrightarrow> ret_short ! 0 = Fin 0"
    by auto
  have "\<exists>d. create_CT_ret ?df 10 2 ''2.0'' = Inr d \<and>
          get_col d ''Hit?_short_10_2.0'' = Inr [Fin 0]"
    by (simp add: create_CT_ret_def Let_def assign_def apply2_def apply3_def bindE_def
        drop_col_def columns_def del_col_def s10 get_col_def short_hit_def short_hit_level_def fgt_def)
  with res(1) have hs: "get_col df' ''Hit?_short_10_2.0'' = Inr [Fin 0]" by simp
  with res(2) have "hit_short = [Fin 0]" by (simp add: ct_outputs_def s10)
  with res(3) have "ret_short ! 0 = Fin 0" by simp
  moreover from res(2) have "length ret_short = 1" by (simp add: ct_outputs_def)
  ultimately have "ret_short = [Fin 0]" by (simp add: singleton_nth)
  with res(2) have "get_col df' ''Short_10_2.0_Return'' = Inr [Fin 0]"
    by (simp add: ct_outputs_def s10)
  with fr res(1) hs show ?thesis by blast
qed

text \<open>
  Claim C9. The long side, row by row: the hit level is yesterday's high minus the lagged
  average day range times the retracement; the hit flag is 1 exactly when today's low is
  strictly below the hit level; on a hit the entry price is today's open when the open is
  below the hit level and the hit level otherwise, the exit price is today's close, and the
  return is exit over entry minus 1. The witness is the scenario of the specification:
  a previous high of 110, an average range of 5 and a retracement of 2 give the level 100;
  a low of 98 is a hit; an open of 99 is the entry; the return is the close over 99 minus 1.
\<close>

theorem create_CT_ret_long_trade:
  assumes "ct_frame df period n opn high low cl av ph pl"
  shows "\<exists>df' hit_long ret_long hit_short ret_short.
     create_CT_ret df period r rname = Inr df' \<and>
     ct_outputs df' period rname n hit_long ret_long hit_short ret_short \<and>
     (\<forall>i<n. let hit_level = fsub (ph ! i) (fmul (av ! i) (Fin r));
                entry = (if flt (opn ! i) hit_level then opn ! i else hit_level)
            in hit_long ! i = (if flt (low ! i) hit_level then Fin 1 else Fin 0) \<and>
               (flt (low ! i) hit_level \<longrightarrow>
                  ret_long ! i = fsub (fdiv (cl ! i) entry) (Fin 1)))"
proof -
  from create_CT_ret_columns[OF assms, of r rname]
  obtain df' hit_long ret_long hit_short ret_short where
    res: "create_CT_ret df period r rname = Inr df'"
      "ct_outputs df' period rname n hit_long ret_long hit_short ret_short"
    and rows: "\<And>i. i < n \<Longrightarrow>
            hit_long ! i = long_hit (low ! i) (long_hit_level r (ph ! i) (av ! i)) \<and>
            ret_long ! i =
              ct_return (exit_pr (cl ! i) (hit_long ! i))
                (long_hit_at (opn ! i) (long_hit_level r (ph ! i) (av ! i)) (hit_long ! i))
                (hit_long ! i)"
    by blast
  have "let hit_level = fsub (ph ! i) (fmul (av ! i) (Fin r));
                entry = (if flt (opn ! i) hit_level then opn ! i else hit_level)
            in hit_long ! i = (if flt (low ! i) hit_level then Fin 1 else Fin 0) \<and>
               (flt (low ! i) hit_level \<longrightarrow>
                  ret_long ! i = fsub (fdiv (cl ! i) entry) (Fin 1))" if "i < n" for i
    using rows[OF that]
    by (simp add: Let_def long_hit_def long_hit_level_def ct_return_def exit_pr_def
        long_hit_at_def fmul_one)
  with res show ?thesis by blast
qed

theorem create_CT_ret_long_trade_witness:
  "ct_frame
      [(''Open'', [Fin 99]), (''High'', [Fin 103]), (''Low'', [Fin 98]), (''Close'', [Fin 102]),
       (''Prev_10_AvDayrange'', [Fin 5]), (''Prev_high'', [Fin 110]), (''Prev_low'', [Fin 100])]
      10 1 [Fin 99] [Fin 103] [Fin 98] [Fin 102] [Fin 5] [Fin 110] [Fin 100] \<and>
   fsub (Fin 110) (fmul (Fin 5) (Fin 2)) = Fin 100 \<and>
   (\<exists>df'. create_CT_ret
      [(''Open'', [Fin 99]), (''High'', [Fin 103]), (''Low'', [Fin 98]), (''Close'', [Fin 102]),
       (''Prev_10_AvDayrange'', [Fin 5]), (''Prev_high'', [Fin 110]), (''Prev_low'', [Fin 100])]
      10 2 ''2.0'' = Inr df' \<and>
     get_col df' ''Hit?_long_10_2.0'' = Inr [Fin 1] \<and>
     get_col df' ''Long_10_2.0_Return'' = Inr [Fin (102 / 99 - 1)])"
proof -
  let ?df = "[(''Open'', [Fin 99]), (''High'', [Fin 103]), (''Low'', [Fin 98]), (''Close'', [Fin 102]),
       (''Prev_10_AvDayrange'', [Fin 5]), (''Prev_high'', [Fin 110]), (''Prev_low'', [Fin 100])]"
  have s10: "str_nat 10 = ''10''"
    by (simp add: str_nat.simps digit_char_def)
  have fr: "ct_frame ?df 10 1 [Fin 99] [Fin 103] [Fin 98] [Fin 102] [Fin 5] [Fin 110] [Fin 100]"
    by (simp add: ct_frame_def ohlc_frame_def get_col_def s10)
  have lvl: "fsub (Fin 110) (fmul (Fin 5) (Fin 2)) = Fin 100"
    by (simp add: fsub_def)
  from create_CT_ret_long_trade[OF fr, of 2 "''2.0''"]
  obtain df' hit_long ret_long hit_short ret_short where
    res: "create_CT_ret ?df 10 2 ''2.0'' = Inr df'"
      "ct_outputs df' 10 ''2.0'' 1 hit_long ret_long hit_short ret_short"
      "hit_long ! 0 = Fin 1" "ret_long ! 0 = Fin (102 / 99 - 1)"
    by (auto simp: Let_def lvl fsub_def)
  from res(2) have "length hit_long = 1" "length ret_long = 1"
    by (simp_all add: ct_outputs_def)
  with res(3,4) have "hit_long = [Fin 1]" "ret_long = [Fin (102 / 99 - 1)]"
    by (simp_all add: singleton_nth)
  with res(2) have "get_col df' ''Hit?_long_10_2.0'' = Inr [Fin 1]"
    "get_col df' ''Long_10_2.0_Return'' = Inr [Fin (102 / 99 - 1)]"
    by (simp_all add: ct_outputs_def s10)
  with fr lvl res(1) show ?thesis by blast
qed

lemma shift_one_head: "0 < length c \<Longrightarrow> shift 1 c ! 0 = NaN"
  by (cases c) (simp_all add: shift_def)

lemma length_shift: "length (shift k c) = length c"
  by (simp add: shift_def)

text \<open>
  Claim C10. In the first row of the frame the sweep runs on, yesterday's high and low are
  NaN, because they are the high and low shifted by one row. For every period and
  retracement both hit flags of that row are 0 and both returns are the number 0.
\<close>

theorem create_CT_ret_first_bar_no_trade:
  assumes fr: "ohlc_frame df period n opn high low cl av" and pos: "0 < n"
  shows "\<exists>d1 ph pl. add_prev_high_low df = Inr d1 \<and>
     ct_frame d1 period n opn high low cl av ph pl \<and> ph ! 0 = NaN \<and> pl ! 0 = NaN \<and>
     (\<exists>df' hit_long ret_long hit_short ret_short.
        create_CT_ret d1 period r rname = Inr df' \<and>
        ct_outputs df' period rname n hit_long ret_long hit_short ret_short \<and>
        hit_long ! 0 = Fin 0 \<and> ret_long ! 0 = Fin 0 \<and>
        hit_short ! 0 = Fin 0 \<and> ret_short ! 0 = Fin 0)"
proof -
  define d1 where "d1 = set_col (set_col df ''Prev_high'' (shift 1 high)) ''Prev_low'' (shift 1 low)"
  have nh: "\<not> is_digit CHR ''h''" "\<not> is_digit CHR ''l''"
    by (simp_all add: is_digit_def)
  have names: "''Prev_'' @ str_nat period @ ''_AvDayrange'' \<noteq> ''Prev_high''"
    "''Prev_'' @ str_nat period @ ''_AvDayrange'' \<noteq> ''Prev_low''"
    using str_nat_head[OF nh(1), of period "''_AvDayrange''" "''igh''"]
      str_nat_head[OF nh(2), of period "''_AvDayrange''" "''ow''"] by simp_all
  have step: "add_prev_high_low df = Inr d1"
    using fr by (simp add: add_prev_high_low_def ohlc_frame_def assign_def bindE_def
        get_col_set_col d1_def)
  have cf: "ct_frame d1 period n opn high low cl av (shift 1 high) (shift 1 low)"
    using fr names by (simp add: ct_frame_def ohlc_frame_def d1_def get_col_set_col length_shift)
  have heads: "shift 1 high ! 0 = NaN" "shift 1 low ! 0 = NaN"
    using fr pos shift_one_head[of high] shift_one_head[of low]
    by (simp_all add: ohlc_frame_def)
  from create_CT_ret_columns[OF cf, of r rname]
  obtain df' hit_long ret_long hit_short ret_short where
    res: "create_CT_ret d1 period r rname = Inr df'"
      "ct_outputs df' period rname n hit_long ret_long hit_short ret_short"
    and rows: "\<And>i. i < n \<Longrightarrow>
            hit_long ! i = long_hit (low ! i) (long_hit_level r (shift 1 high ! i) (av ! i)) \<and>
            ret_long ! i =
              ct_return (exit_pr (cl ! i) (hit_long ! i))
                (long_hit_at (opn ! i) (long_hit_level r (shift 1 high ! i) (av ! i)) (hit_long ! i))
                (hit_long ! i) \<and>
            hit_short ! i = short_hit (high ! i) (short_hit_level r (shift 1 low ! i) (av ! i)) \<and>
            ret_short ! i =
              ct_return (exit_pr (cl ! i) (hit_short ! i))
                (short_hit_at (opn ! i) (short_hit_level r (shift 1 low ! i) (av ! i)) (hit_short ! i))
                (hit_short ! i)"
    by blast
  have hl: "hit_long ! 0 = Fin 0"
    using rows[OF pos] heads
    by (simp add: long_hit_def long_hit_level_def fsub_def flt_NaN_right)
  have hs: "hit_short ! 0 = Fin 0"
    using rows[OF pos] heads by (simp add: short_hit_def short_hit_level_def fgt_def)
  have rl: "ret_long ! 0 = Fin 0"
    using rows[OF pos] hl by (simp add: ct_return_def)
  have rs: "ret_short ! 0 = Fin 0"
    using rows[OF pos] hs by (simp add: ct_return_def)
  from step cf heads res hl hs rl rs show ?thesis by blast
qed

theorem create_CT_ret_first_bar_no_trade_witness:
  "ohlc_frame
      [(''Open'', [Fin 99, Fin 101]), (''High'', [Fin 103, Fin 104]),
       (''Low'', [Fin 98, Fin 100]), (''Close'', [Fin 102, Fin 103]),
       (''Prev_10_AvDayrange'', [Fin 5, Fin 5])]
      10 2 [Fin 99, Fin 101] [Fin 103, Fin 104] [Fin 98, Fin 100] [Fin 102, Fin 103]
      [Fin 5, Fin 5] \<and>
   (\<exists>d1 ph pl. add_prev_high_low
      [(''Open'', [Fin 99, Fin 101]), (''High'', [Fin 103, Fin 104]),
       (''Low'', [Fin 98, Fin 100]), (''Close'', [Fin 102, Fin 103]),
       (''Prev_10_AvDayrange'', [Fin 5, Fin 5])] = Inr d1 \<and>
     get_col d1 ''Prev_high'' = Inr ph \<and> get_col d1 ''Prev_low'' = Inr pl \<and>
     ph ! 0 = NaN \<and> pl ! 0 = NaN \<and>
     (\<exists>df' hit_long ret_long hit_short ret_short.
        create_CT_ret d1 10 2 ''2.0'' = Inr df' \<and>
        ct_outputs df' 10 ''2.0'' 2 hit_long ret_long hit_short ret_short \<and>
        hit_long ! 0 = Fin 0 \<and> ret_long ! 0 = Fin 0 \<and>
        hit_short ! 0 = Fin 0 \<and> ret_short ! 0 = Fin 0))"
proof -
  let ?df = "[(''Open'', [Fin 99, Fin 101]), (''High'', [Fin 103, Fin 104]),
       (''Low'', [Fin 98, Fin 100]), (''Close'', [Fin 102, Fin 103]),
       (''Prev_10_AvDayrange'', [Fin 5, Fin 5])]"
  have s10: "str_nat 10 = ''10''"
    by (simp add: str_nat.simps digit_char_def)
  have fr: "ohlc_frame ?df 10 2 [Fin 99, Fin 101] [Fin 103, Fin 104] [Fin 98, Fin 100]
      [Fin 102, Fin 103] [Fin 5, Fin 5]"
    by (simp add: ohlc_frame_def get_col_def s10)
  have pos: "(0::nat) < 2" by simp
  from create_CT_ret_first_bar_no_trade[OF fr pos, of 2 "''2.0''"] fr
  show ?thesis unfolding ct_frame_def by blast
qed

section \<open>Z-scores where the deviation is zero\<close>

lemma shift_one_nth:
  "t < length c \<Longrightarrow> shift (Suc 0) c ! t = (if t = 0 then NaN else c ! (t - 1))"
  by (cases t) (simp_all add: shift_def)

lemma length_rolling_mean: "length (rolling_mean w xs) = length xs"
  by (simp add: rolling_mean_def)

lemma length_rolling_std: "length (rolling_std w xs) = length xs"
  by (simp add: rolling_std_def)

lemma rolling_mean_nth:
  "i < length xs \<Longrightarrow> rolling_mean w xs ! i =
     (if 1 \<le> w \<and> w \<le> i + 1 \<and> all_fin (window_at w xs i)
      then Fin (mean_fin (window_at w xs i)) else NaN)"
  by (simp add: rolling_mean_def)

lemma rolling_std_nth:
  "i < length xs \<Longrightarrow> rolling_std w xs ! i =
     (if 1 \<le> w \<and> w \<le> i + 1 then sample_std (window_at w xs i) else NaN)"
  by (simp add: rolling_std_def)






lemma upt3: "[0..<3] = [0, 1, 2]" by (simp add: upt_rec)



section \<open>The stored downside volatility\<close>

lemma calSortinoMV_result_nth:
  assumes "1 \<le> period" "i < length c"
  shows "(replicate (period - 1) NaN @
              map (\<lambda>k. sample_std (filter (\<lambda>ret. flt ret (Fin 0)) (take period (drop k c))))
                [0..<length c + 1 - period]) ! i =
         (if i < period - 1 then NaN
          else sample_std (filter (\<lambda>ret. flt ret (Fin 0)) (window_at period c i)))"
  using assms by (auto simp: nth_append window_at_def)

text \<open>
  Claim C1 against the code. \<open>calSortinoMV\<close> computes the downside volatility the
  claim describes, in \<open>result_list\<close>, which it returns and its caller drops; the
  column it stores under \<open>Sortino_MV_\<close> is the rolling standard deviation of the whole
  window, the column \<open>calMV\<close> stores. The witness is a frame where the two differ: the
  returns -1, -3, 5 with a window of 3 have the downside deviation \<open>sqrt 2\<close>, and the
  stored value is \<open>sqrt (52 / 3)\<close>.
\<close>

theorem calSortinoMV_stores_rolling_std:
  assumes "get_col df col = Inr c"
  shows "\<exists>result_list df'. calSortinoMV df period col = Inr (result_list, df') \<and>
     get_col df' (''Sortino_MV_'' @ str_nat period) = Inr (rolling_std period c) \<and>
     (\<exists>dm. calMV df period col = Inr dm \<and>
        get_col dm (''MV_'' @ str_nat period) = Inr (rolling_std period c)) \<and>
     (1 \<le> period \<and> length c = nrows df \<longrightarrow>
        (\<forall>i<length c. result_list ! i =
           (if i < period - 1 then NaN
            else sample_std (filter (\<lambda>ret. flt ret (Fin 0)) (window_at period c i)))))"
proof -
  have mv: "\<exists>dm. calMV df period col = Inr dm \<and>
        get_col dm (''MV_'' @ str_nat period) = Inr (rolling_std period c)"
    using assms by (simp add: calMV_def assign_def bindE_def get_col_set_col)
  let ?res = "replicate (period - 1) NaN @
              map (\<lambda>k. sample_std (filter (\<lambda>ret. flt ret (Fin 0)) (take period (drop k c))))
                [0..<nrows df + 1 - period]"
  let ?df' = "set_col df (''Sortino_MV_'' @ str_nat period) (rolling_std period c)"
  have run: "calSortinoMV df period col = Inr (?res, ?df')"
    using assms by (simp add: calSortinoMV_def bindE_def)
  have st: "get_col ?df' (''Sortino_MV_'' @ str_nat period) = Inr (rolling_std period c)"
    by (simp add: get_col_set_col)
  have "\<forall>i<length c. ?res ! i =
           (if i < period - 1 then NaN
            else sample_std (filter (\<lambda>ret. flt ret (Fin 0)) (window_at period c i)))"
    if h: "1 \<le> period \<and> length c = nrows df"
  proof (intro allI impI)
    fix i assume i: "i < length c"
    from h have eq: "nrows df = length c" and p: "1 \<le> period" by simp_all
    show "?res ! i =
           (if i < period - 1 then NaN
            else sample_std (filter (\<lambda>ret. flt ret (Fin 0)) (window_at period c i)))"
      unfolding eq by (rule calSortinoMV_result_nth[OF p i])
  qed
  with run st mv show ?thesis by blast
qed

lemma str_nat_3: "str_nat 3 = ''3''"
  by (simp add: str_nat.simps digit_char_def)

theorem calSortinoMV_stores_rolling_std_witness:
  "get_col [(''eodRet'', [Fin (- 1), Fin (- 3), Fin 5])] ''eodRet'' = Inr [Fin (- 1), Fin (- 3), Fin 5] \<and>
   (\<exists>result_list df'.
      calSortinoMV [(''eodRet'', [Fin (- 1), Fin (- 3), Fin 5])] 3 ''eodRet'' = Inr (result_list, df') \<and>
      get_col df' ''Sortino_MV_3'' = Inr [NaN, NaN, Fin (sqrt (52 / 3))] \<and>
      result_list ! 2 = Fin (sqrt 2) \<and> sqrt 2 \<noteq> sqrt (52 / 3))"
proof -
  have g: "get_col [(''eodRet'', [Fin (- 1), Fin (- 3), Fin 5])] ''eodRet'' = Inr [Fin (- 1), Fin (- 3), Fin 5]"
    by (simp add: get_col_def)
  have rs: "rolling_std 3 [Fin (- 1), Fin (- 3), Fin 5] = [NaN, NaN, Fin (sqrt (52 / 3))]"
    by (simp add: rolling_std_def sample_std_def window_at_def all_fin_def mean_fin_def upt3
        power2_eq_square)
  have neg: "sample_std (filter (\<lambda>ret. flt ret (Fin 0)) (window_at 3 [Fin (- 1), Fin (- 3), Fin 5] 2))
     = Fin (sqrt 2)"
    by (simp add: sample_std_def window_at_def all_fin_def mean_fin_def power2_eq_square)
  from calSortinoMV_stores_rolling_std[OF g, of 3] rs neg
  have "\<exists>result_list df'.
      calSortinoMV [(''eodRet'', [Fin (- 1), Fin (- 3), Fin 5])] 3 ''eodRet'' = Inr (result_list, df') \<and>
      get_col df' ''Sortino_MV_3'' = Inr [NaN, NaN, Fin (sqrt (52 / 3))] \<and>
      result_list ! 2 = Fin (sqrt 2)"
    by (auto simp: str_nat_3 nrows_def)
  with g show ?thesis by simp
qed

section \<open>The exponential moving average\<close>

lemma length_ema_step: "length (ema_step k w src i e) = length e"
  by (simp add: ema_step_def)

lemma length_ema_fold: "length (fold (ema_step k w src) is e) = length e"
  by (induction "is" arbitrary: e) (simp_all add: length_ema_step)

lemma ema_step_nth:
  "j < length e \<Longrightarrow> ema_step k w src i e ! j =
     (if j = w + i then fadd (fmul (e ! (w + i - 1)) (Fin (1 - k))) (fmul (src ! (w + i)) (Fin k))
      else e ! j)"
  by (simp add: ema_step_def nth_list_update)

lemma ema_fold_props:
  assumes w: "1 \<le> w" and m: "w + m \<le> length e0"
  shows "(\<forall>j<w. fold (ema_step k w src) [0..<m] e0 ! j = e0 ! j) \<and>
     (\<forall>j. w \<le> j \<and> j < w + m \<longrightarrow>
        fold (ema_step k w src) [0..<m] e0 ! j =
          fadd (fmul (fold (ema_step k w src) [0..<m] e0 ! (j - 1)) (Fin (1 - k)))
               (fmul (src ! j) (Fin k)))"
  using m
proof (induction m)
  case 0
  then show ?case by auto
next
  case (Suc m)
  define e where "e = fold (ema_step k w src) [0..<m] e0"
  define e' where "e' = ema_step k w src m e"
  have unfold: "fold (ema_step k w src) [0..<Suc m] e0 = e'"
    by (simp add: e'_def e_def)
  from Suc have IH1: "\<And>j. j < w \<Longrightarrow> e ! j = e0 ! j"
    and IH2: "\<And>j. w \<le> j \<Longrightarrow> j < w + m \<Longrightarrow>
        e ! j = fadd (fmul (e ! (j - 1)) (Fin (1 - k))) (fmul (src ! j) (Fin k))"
    by (simp_all add: e_def)
  have len: "length e = length e0" unfolding e_def by (rule length_ema_fold)
  have nth': "\<And>j. j < length e0 \<Longrightarrow> e' ! j =
     (if j = w + m then fadd (fmul (e ! (w + m - 1)) (Fin (1 - k))) (fmul (src ! (w + m)) (Fin k))
      else e ! j)"
    unfolding e'_def using len by (simp add: ema_step_nth)
  have a: "e' ! j = e0 ! j" if "j < w" for j
    using that Suc.prems nth'[of j] IH1[of j] by simp
  have b: "e' ! j = fadd (fmul (e' ! (j - 1)) (Fin (1 - k))) (fmul (src ! j) (Fin k))"
    if j: "w \<le> j \<and> j < w + Suc m" for j
  proof (cases "j = w + m")
    case True
    have "e' ! j = fadd (fmul (e ! (w + m - 1)) (Fin (1 - k))) (fmul (src ! (w + m)) (Fin k))"
      using True Suc.prems nth'[of j] by simp
    moreover have "e' ! (j - 1) = e ! (w + m - 1)"
    proof -
      have ne: "w + m - 1 \<noteq> w + m" and lt: "w + m - 1 < length e0"
        using w Suc.prems by arith+
      from nth'[OF lt] ne have "e' ! (w + m - 1) = e ! (w + m - 1)" by simp
      with True show ?thesis by simp
    qed
    ultimately show ?thesis using True by simp
  next
    case False
    with j have lt: "j < w + m" by simp
    have "e' ! j = e ! j" using lt Suc.prems nth'[of j] by simp
    moreover have "e' ! (j - 1) = e ! (j - 1)"
    proof -
      have ne: "j - 1 \<noteq> w + m" and l: "j - 1 < length e0"
        using lt Suc.prems by arith+
      from nth'[OF l] ne show ?thesis by simp
    qed
    ultimately show ?thesis using IH2[of j] j lt by simp
  qed
  from a b show ?case unfolding unfold by blast
qed

lemma fold_fadd_fin:
  "all_fin vs \<Longrightarrow> fold (\<lambda>x s. fadd s x) vs (Fin a) = Fin (a + sum_list (map the_fin vs))"
proof (induction vs arbitrary: a)
  case Nil
  then show ?case by simp
next
  case (Cons v vs)
  then obtain x where v: "v = Fin x" by (cases v) (simp_all add: all_fin_def)
  with Cons show ?case by (simp add: all_fin_def add.assoc)
qed

lemma all_fin_filter: "all_fin vs \<Longrightarrow> filter (\<lambda>x. x \<noteq> NaN) vs = vs"
proof (induction vs)
  case Nil
  then show ?case by simp
next
  case (Cons v vs)
  then show ?case by (cases v) (simp_all add: all_fin_def)
qed

lemma series_mean_fin:
  assumes "all_fin vs" "vs \<noteq> []"
  shows "series_mean vs = Fin (mean_fin vs)"
  using assms by (simp add: series_mean_def all_fin_filter fold_fadd_fin mean_fin_def)

lemma window_at_first: "window_at w xs (w - Suc 0) = take w xs"
  by (cases w) (simp_all add: window_at_def)

text \<open>
  Claim C5. For a window w of at least 1 and at most the number of rows, \<open>calEMA\<close>
  succeeds; the column it stores is NaN before index \<open>w - 1\<close>; the seed at index
  \<open>w - 1\<close> is the mean pandas takes of the first w values, which is their arithmetic
  mean, the value of the simple moving average there, when all of them are numbers; and
  from index w on every value is the one before it times \<open>1 - k\<close> plus the source
  value times k, with \<open>k = 2 / (w + 1)\<close>.
\<close>

theorem calEMA_seed_and_recurrence:
  assumes g: "get_col df col = Inr src" and ne: "col \<noteq> ''EMA_'' @ str_nat w"
    and len: "length src = nrows df" and w1: "1 \<le> w" and wn: "w \<le> length src"
  shows "\<exists>df' ema. calEMA df w col 2 = Inr df' \<and>
     get_col df' (''EMA_'' @ str_nat w) = Inr ema \<and> length ema = length src \<and>
     (\<forall>i<w - 1. ema ! i = NaN) \<and>
     ema ! (w - 1) = series_mean (take w src) \<and>
     (all_fin (take w src) \<longrightarrow>
        ema ! (w - 1) = Fin (mean_fin (take w src)) \<and>
        ema ! (w - 1) = rolling_mean w src ! (w - 1)) \<and>
     (\<forall>i. w \<le> i \<and> i < length src \<longrightarrow>
        ema ! i = fadd (fmul (ema ! (i - 1)) (Fin (1 - 2 / (real w + 1))))
                       (fmul (src ! i) (Fin (2 / (real w + 1)))))"
proof -
  define k :: real where "k = 2 / (real w + 1)"
  define seeded where
    "seeded = (replicate (nrows df) NaN)[w - 1 := series_mean (take w src)]"
  define ema where "ema = fold (ema_step k w src) [0..<length src - w] seeded"
  define df' where
    "df' = set_col (set_col df (''EMA_'' @ str_nat w) (replicate (nrows df) NaN))
             (''EMA_'' @ str_nat w) ema"
  have run: "calEMA df w col 2 = Inr df'"
    using g ne w1 wn
    by (simp add: calEMA_def Let_def bindE_def get_col_set_col df'_def ema_def seeded_def k_def)
  have stored: "get_col df' (''EMA_'' @ str_nat w) = Inr ema"
    by (simp add: df'_def get_col_set_col)
  have ls: "length seeded = length src" by (simp add: seeded_def len)
  have le: "length ema = length src" unfolding ema_def by (simp add: length_ema_fold ls)
  have bound: "w + (length src - w) \<le> length seeded" using wn ls by simp
  from ema_fold_props[OF w1 bound, of k src]
  have low: "\<And>j. j < w \<Longrightarrow> ema ! j = seeded ! j"
    and rec: "\<And>j. w \<le> j \<Longrightarrow> j < w + (length src - w) \<Longrightarrow>
        ema ! j = fadd (fmul (ema ! (j - 1)) (Fin (1 - k))) (fmul (src ! j) (Fin k))"
    unfolding ema_def by blast+
  have before: "\<forall>i<w - 1. ema ! i = NaN"
  proof (intro allI impI)
    fix i assume i: "i < w - 1"
    then have "i < w" "i \<noteq> w - 1" "i < nrows df" using wn len by simp_all
    then show "ema ! i = NaN" using low[of i] by (simp add: seeded_def)
  qed
  have seed: "ema ! (w - 1) = series_mean (take w src)"
  proof -
    have "w - 1 < w" "w - 1 < nrows df" using w1 wn len by simp_all
    then show ?thesis using low[of "w - 1"] by (simp add: seeded_def)
  qed
  have sma: "ema ! (w - 1) = Fin (mean_fin (take w src)) \<and>
        ema ! (w - 1) = rolling_mean w src ! (w - 1)" if fin: "all_fin (take w src)"
  proof -
    have nonempty: "take w src \<noteq> []" using w1 wn by auto
    have a: "ema ! (w - 1) = Fin (mean_fin (take w src))"
      using seed series_mean_fin[OF fin nonempty] by simp
    have "w - 1 < length src" using w1 wn by simp
    then have "rolling_mean w src ! (w - 1) = Fin (mean_fin (take w src))"
      using w1 fin by (simp add: rolling_mean_nth window_at_first)
    with a show ?thesis by simp
  qed
  have recur: "\<forall>i. w \<le> i \<and> i < length src \<longrightarrow>
        ema ! i = fadd (fmul (ema ! (i - 1)) (Fin (1 - 2 / (real w + 1))))
                       (fmul (src ! i) (Fin (2 / (real w + 1))))"
    using rec wn by (simp add: k_def)
  from run stored le before seed sma recur show ?thesis by blast
qed

theorem calEMA_seed_and_recurrence_witness:
  "get_col [(''Close'', [Fin 1, Fin 2, Fin 3, Fin 6])] ''Close'' = Inr [Fin 1, Fin 2, Fin 3, Fin 6] \<and>
   (\<exists>df' ema. calEMA [(''Close'', [Fin 1, Fin 2, Fin 3, Fin 6])] 2 ''Close'' 2 = Inr df' \<and>
      get_col df' ''EMA_2'' = Inr ema \<and> length ema = 4 \<and>
      ema ! 0 = NaN \<and> ema ! 1 = Fin (3 / 2) \<and> ema ! 2 = Fin (5 / 2) \<and> ema ! 3 = Fin (29 / 6))"
proof -
  let ?src = "[Fin 1, Fin 2, Fin 3, Fin 6]"
  let ?df = "[(''Close'', ?src)]"
  have s2: "str_nat 2 = ''2''" by (simp add: str_nat.simps digit_char_def)
  have g: "get_col ?df ''Close'' = Inr ?src" by (simp add: get_col_def)
  have ne: "''Close'' \<noteq> ''EMA_'' @ str_nat 2" by simp
  have len: "length ?src = nrows ?df" by (simp add: nrows_def)
  have w1: "(1::nat) \<le> 2" by simp
  have wn: "2 \<le> length ?src" by simp
  from calEMA_seed_and_recurrence[OF g ne len w1 wn] obtain df' ema where
    run: "calEMA ?df 2 ''Close'' 2 = Inr df'" "get_col df' (''EMA_'' @ str_nat 2) = Inr ema"
      "length ema = length ?src"
    and before: "\<forall>i<2 - 1. ema ! i = NaN"
    and seed: "ema ! (2 - 1) = series_mean (take 2 ?src)"
    and rec: "\<forall>i. 2 \<le> i \<and> i < length ?src \<longrightarrow>
        ema ! i = fadd (fmul (ema ! (i - 1)) (Fin (1 - 2 / (real 2 + 1))))
                       (fmul (?src ! i) (Fin (2 / (real 2 + 1))))"
    by blast
  have e0: "ema ! 0 = NaN" using before by simp
  have e1: "ema ! 1 = Fin (3 / 2)" using seed by (simp add: series_mean_def)
  have e2: "ema ! 2 = Fin (5 / 2)"
  proof -
    from rec have "ema ! 2 = fadd (fmul (ema ! (2 - 1)) (Fin (1 - 2 / (real 2 + 1))))
                       (fmul (?src ! 2) (Fin (2 / (real 2 + 1))))" by simp
    with e1 show ?thesis by simp
  qed
  have e3: "ema ! 3 = Fin (29 / 6)"
  proof -
    from rec have "ema ! 3 = fadd (fmul (ema ! (3 - 1)) (Fin (1 - 2 / (real 2 + 1))))
                       (fmul (?src ! 3) (Fin (2 / (real 2 + 1))))" by simp
    with e2 show ?thesis by simp
  qed
  from run g e0 e1 e2 e3 show ?thesis by (simp add: s2)
qed

section \<open>Operations on frames that agree before a row\<close>

lemma agree_upto_refl: "agree_upto t c c"
  by (simp add: agree_upto_def)

lemma agree_upto_mono: "agree_upto (Suc t) c c' \<Longrightarrow> agree_upto t c c'"
  unfolding agree_upto_def by (metis take_take min.cobounded1 min_def le_SucI le_refl)

lemma agree_upto_nth: "agree_upto t c c' \<Longrightarrow> i < t \<Longrightarrow> c ! i = c' ! i"
  unfolding agree_upto_def by (metis nth_take)

lemma agree_upto_take: "agree_upto t c c' \<Longrightarrow> k \<le> t \<Longrightarrow> take k c = take k c'"
  unfolding agree_upto_def by (metis min.absorb1 take_take)

lemma agree_uptoI:
  assumes "length c = length c'" "\<And>i. i < t \<Longrightarrow> i < length c \<Longrightarrow> c ! i = c' ! i"
  shows "agree_upto t c c'"
  unfolding agree_upto_def using assms by (auto intro: nth_equalityI)

lemma frames_agree_get:
  "frames_agree t df df' \<Longrightarrow> rel_sum (=) (agree_upto t) (get_col df n) (get_col df' n)"
  unfolding frames_agree_def
  by (induction df df' rule: list_all2_induct) (auto simp: get_col_def)

lemma frames_agree_set:
  "frames_agree t df df' \<Longrightarrow> agree_upto t v v' \<Longrightarrow>
     frames_agree t (set_col df n v) (set_col df' n v')"
  unfolding frames_agree_def
  by (induction df df' rule: list_all2_induct) auto

lemma frames_agree_columns: "frames_agree t df df' \<Longrightarrow> columns df = columns df'"
  unfolding frames_agree_def columns_def
  by (induction df df' rule: list_all2_induct) auto

lemma frames_agree_del:
  "frames_agree t df df' \<Longrightarrow> frames_agree t (del_col df n) (del_col df' n)"
  unfolding frames_agree_def del_col_def
  by (induction df df' rule: list_all2_induct) auto

lemma frames_agree_nrows: "frames_agree t df df' \<Longrightarrow> nrows df = nrows df'"
  unfolding frames_agree_def nrows_def
  by (cases df; cases df') (auto simp: agree_upto_def)

lemma frames_agree_drop:
  "frames_agree t df df' \<Longrightarrow> rel_sum (=) (frames_agree t) (drop_col df n) (drop_col df' n)"
  by (simp add: drop_col_def frames_agree_columns frames_agree_del)

lemma bindE_rel:
  assumes "rel_sum (=) R m m'" "\<And>x x'. R x x' \<Longrightarrow> rel_sum (=) S (f x) (f' x')"
  shows "rel_sum (=) S (bindE m f) (bindE m' f')"
  using assms by (cases m; cases m') (auto simp: bindE_def)

lemma assign_rel:
  assumes "frames_agree t df df'" "rel_sum (=) (agree_upto t) m m'"
  shows "rel_sum (=) (frames_agree t) (assign df n m) (assign df' n m')"
  unfolding assign_def
  by (rule bindE_rel[OF assms(2)]) (simp add: frames_agree_set assms(1))

lemma shift_agree: "agree_upto t c c' \<Longrightarrow> agree_upto (Suc t) (shift 1 c) (shift 1 c')"
proof (rule agree_uptoI)
  assume a: "agree_upto t c c'"
  then show "length (shift 1 c) = length (shift 1 c')" by (simp add: length_shift agree_upto_def)
  fix i assume i: "i < Suc t" "i < length (shift 1 c)"
  then have lt: "i < length c" "i < length c'" using a by (simp_all add: length_shift agree_upto_def)
  show "shift 1 c ! i = shift 1 c' ! i"
  proof (cases i)
    case 0
    with lt show ?thesis using shift_one_nth[of i c] shift_one_nth[of i c'] by simp
  next
    case (Suc j)
    with i have "j < t" by simp
    with a have "c ! j = c' ! j" by (rule agree_upto_nth)
    with Suc lt show ?thesis using shift_one_nth[of i c] shift_one_nth[of i c'] by simp
  qed
qed

lemma window_at_prefix:
  assumes "w \<le> i + 1"
  shows "window_at w c i = window_at w (take (i + 1) c) i"
  using assms by (simp add: window_at_def drop_take min_def)

lemma window_agree:
  assumes a: "agree_upto t c c'" and i: "i < t" and w: "w \<le> i + 1"
  shows "window_at w c i = window_at w c' i"
proof -
  from i have "i + 1 \<le> t" by simp
  with a have "take (i + 1) c = take (i + 1) c'" by (rule agree_upto_take)
  with window_at_prefix[OF w, of c] window_at_prefix[OF w, of c'] show ?thesis by simp
qed

lemma rolling_mean_agree:
  assumes a: "agree_upto t c c'"
  shows "agree_upto t (rolling_mean w c) (rolling_mean w c')"
proof (rule agree_uptoI)
  from a show "length (rolling_mean w c) = length (rolling_mean w c')"
    by (simp add: length_rolling_mean agree_upto_def)
  fix i assume i: "i < t" "i < length (rolling_mean w c)"
  then have lt: "i < length c" "i < length c'" using a
    by (simp_all add: length_rolling_mean agree_upto_def)
  show "rolling_mean w c ! i = rolling_mean w c' ! i"
  proof (cases "w \<le> i + 1")
    case True
    from window_agree[OF a i(1) True] lt show ?thesis by (simp add: rolling_mean_nth)
  next
    case False
    with lt show ?thesis by (simp add: rolling_mean_nth)
  qed
qed

lemma rolling_std_agree:
  assumes a: "agree_upto t c c'"
  shows "agree_upto t (rolling_std w c) (rolling_std w c')"
proof (rule agree_uptoI)
  from a show "length (rolling_std w c) = length (rolling_std w c')"
    by (simp add: length_rolling_std agree_upto_def)
  fix i assume i: "i < t" "i < length (rolling_std w c)"
  then have lt: "i < length c" "i < length c'" using a
    by (simp_all add: length_rolling_std agree_upto_def)
  show "rolling_std w c ! i = rolling_std w c' ! i"
  proof (cases "w \<le> i + 1")
    case True
    from window_agree[OF a i(1) True] lt show ?thesis by (simp add: rolling_std_nth)
  next
    case False
    with lt show ?thesis by (simp add: rolling_std_nth)
  qed
qed

lemma map2_agree:
  assumes "agree_upto t a a'" "agree_upto t b b'"
  shows "agree_upto t (map (\<lambda>(x, y). f x y) (zip a b)) (map (\<lambda>(x, y). f x y) (zip a' b'))"
  using assms by (simp add: agree_upto_def take_map take_zip)

lemma apply2_rel:
  assumes "frames_agree t df df'"
  shows "rel_sum (=) (agree_upto t) (apply2 df a b f) (apply2 df' a b f)"
  unfolding apply2_def
  apply (rule bindE_rel[OF frames_agree_get[OF assms]])
  apply (rule bindE_rel[OF frames_agree_get[OF assms]])
  apply (simp add: map2_agree)
  done

lemma get_map_rel:
  assumes "frames_agree t df df'" "\<And>c c'. agree_upto t c c' \<Longrightarrow> agree_upto t (g c) (g c')"
  shows "rel_sum (=) (agree_upto t)
     (bindE (get_col df n) (\<lambda>c. Inr (g c))) (bindE (get_col df' n) (\<lambda>c. Inr (g c)))"
  by (rule bindE_rel[OF frames_agree_get[OF assms(1)]]) (simp add: assms(2))

lemma ema_step_agree:
  assumes e: "agree_upto t e e'" and s: "agree_upto t src src'" and w: "1 \<le> w"
  shows "agree_upto t (ema_step k w src i e) (ema_step k w src' i e')"
proof (rule agree_uptoI)
  from e have len: "length e = length e'" by (simp add: agree_upto_def)
  then show "length (ema_step k w src i e) = length (ema_step k w src' i e')"
    by (simp add: length_ema_step)
  fix j assume j: "j < t" "j < length (ema_step k w src i e)"
  then have lj: "j < length e" "j < length e'" using len by (simp_all add: length_ema_step)
  show "ema_step k w src i e ! j = ema_step k w src' i e' ! j"
  proof (cases "j = w + i")
    case True
    with j w have "w + i - 1 < t" "w + i < t" by simp_all
    then have "e ! (w + i - 1) = e' ! (w + i - 1)" "src ! (w + i) = src' ! (w + i)"
      using agree_upto_nth[OF e] agree_upto_nth[OF s] by simp_all
    with True lj show ?thesis by (simp add: ema_step_nth)
  next
    case False
    with lj agree_upto_nth[OF e j(1)] show ?thesis by (simp add: ema_step_nth)
  qed
qed

lemma ema_fold_agree:
  assumes "agree_upto t e e'" "agree_upto t src src'" "1 \<le> w"
  shows "agree_upto t (fold (ema_step k w src) is e) (fold (ema_step k w src') is e')"
  using assms(1)
proof (induction "is" arbitrary: e e')
  case Nil
  then show ?case by simp
next
  case (Cons i "is")
  from ema_step_agree[OF Cons.prems assms(2,3)]
  have "agree_upto t (ema_step k w src i e) (ema_step k w src' i e')" .
  from Cons.IH[OF this] show ?case by simp
qed

lemma seeded_agree:
  assumes s: "agree_upto t src src'" and w: "1 \<le> w"
  shows "agree_upto t ((replicate n NaN)[w - 1 := series_mean (take w src)])
                      ((replicate n NaN)[w - 1 := series_mean (take w src')])"
proof (cases "w \<le> t")
  case True
  with s have "take w src = take w src'" by (rule agree_upto_take)
  then show ?thesis by (simp add: agree_upto_refl)
next
  case False
  then have "t \<le> w - 1" by simp
  then show ?thesis by (simp add: agree_upto_def)
qed

lemma calEMA_rel:
  assumes fa: "frames_agree t df df'"
  shows "rel_sum (=) (frames_agree t) (calEMA df p col num) (calEMA df' p col num)"
proof -
  let ?name = "''EMA_'' @ str_nat p"
  let ?d1 = "set_col df ?name (replicate (nrows df) NaN)"
  let ?d1' = "set_col df' ?name (replicate (nrows df') NaN)"
  have n: "nrows df = nrows df'" using fa by (rule frames_agree_nrows)
  have fa1: "frames_agree t ?d1 ?d1'"
    using fa by (simp add: frames_agree_set n agree_upto_refl)
  show ?thesis
    unfolding calEMA_def Let_def
  proof (rule bindE_rel[OF frames_agree_get[OF fa1]])
    fix src src' assume s: "agree_upto t src src'"
    then have len: "length src = length src'" by (simp add: agree_upto_def)
    show "rel_sum (=) (frames_agree t)
        (if p = 0 \<or> length src < p then Inl KeyError
         else Inr (set_col ?d1 ?name
                (fold (ema_step (num / (real p + 1)) p src) [0..<length src - p]
                   ((replicate (nrows df) NaN)[p - 1 := series_mean (take p src)]))))
        (if p = 0 \<or> length src' < p then Inl KeyError
         else Inr (set_col ?d1' ?name
                (fold (ema_step (num / (real p + 1)) p src') [0..<length src' - p]
                   ((replicate (nrows df') NaN)[p - 1 := series_mean (take p src')]))))"
    proof (cases "p = 0 \<or> length src < p")
      case True
      with len show ?thesis by simp
    next
      case False
      then have p: "1 \<le> p" by simp
      from ema_fold_agree[OF seeded_agree[OF s p] s p]
      have "agree_upto t
          (fold (ema_step (num / (real p + 1)) p src) [0..<length src - p]
             ((replicate (nrows df) NaN)[p - 1 := series_mean (take p src)]))
          (fold (ema_step (num / (real p + 1)) p src') [0..<length src' - p]
             ((replicate (nrows df') NaN)[p - 1 := series_mean (take p src')]))"
        by (simp add: len n)
      with False len fa1 show ?thesis by (simp add: frames_agree_set)
    qed
  qed
qed

lemma calSMA_rel:
  assumes fa: "frames_agree t df df'"
  shows "rel_sum (=) (frames_agree t) (calSMA df p col) (calSMA df' p col)"
  unfolding calSMA_def
  by (rule assign_rel[OF fa get_map_rel[OF fa]]) (rule rolling_mean_agree)

lemma ensure_MA_rel:
  assumes fa: "frames_agree t df df'"
  shows "rel_sum (=) (frames_agree t) (ensure_MA df P MA_type col) (ensure_MA df' P MA_type col)"
  unfolding ensure_MA_def
  using fa by (simp add: frames_agree_columns[OF fa] calSMA_rel calEMA_rel)

lemma calEndOfDayRet_rel:
  assumes fa: "frames_agree t df df'"
  shows "rel_sum (=) (frames_agree t) (calEndOfDayRet df col) (calEndOfDayRet df' col)"
  unfolding calEndOfDayRet_def
proof (rule bindE_rel)
  show "rel_sum (=) (frames_agree t)
      (assign df ''past_Close'' (bindE (get_col df col) (\<lambda>c. Inr (shift 1 c))))
      (assign df' ''past_Close'' (bindE (get_col df' col) (\<lambda>c. Inr (shift 1 c))))"
    by (rule assign_rel[OF fa get_map_rel[OF fa]]) (rule agree_upto_mono[OF shift_agree])
next
  fix d1 d1' assume f1: "frames_agree t d1 d1'"
  show "rel_sum (=) (frames_agree t)
      (bindE (assign d1 ''eodRet''
           (apply2 d1 ''Close'' ''past_Close'' (\<lambda>cl pc. fsub (fdiv cl pc) (Fin 1))))
         (\<lambda>df2. drop_col df2 ''past_Close''))
      (bindE (assign d1' ''eodRet''
           (apply2 d1' ''Close'' ''past_Close'' (\<lambda>cl pc. fsub (fdiv cl pc) (Fin 1))))
         (\<lambda>df2. drop_col df2 ''past_Close''))"
    by (rule bindE_rel[OF assign_rel[OF f1 apply2_rel[OF f1]]]) (rule frames_agree_drop)
qed

section \<open>Trend-following signals look at no bar of today or later\<close>

lemma bindE_Inr_iff: "bindE m f = Inr r \<longleftrightarrow> (\<exists>x. m = Inr x \<and> f x = Inr r)"
  by (cases m) (simp_all add: bindE_def)

lemma assign_frame: "assign df m x = Inr d \<Longrightarrow> n \<noteq> m \<Longrightarrow> get_col d n = get_col df n"
  by (auto simp: assign_def bindE_Inr_iff get_col_set_col)

lemma drop_col_frame: "drop_col df m = Inr d \<Longrightarrow> n \<noteq> m \<Longrightarrow> get_col d n = get_col df n"
  by (auto simp: drop_col_def get_col_del_col split: if_splits)

lemma calEndOfDayRet_frame:
  assumes "calEndOfDayRet df col = Inr d" "n \<noteq> ''past_Close''" "n \<noteq> ''eodRet''"
  shows "get_col d n = get_col df n"
proof -
  from assms(1) obtain d1 d2 where
    s: "assign df ''past_Close'' (bindE (get_col df col) (\<lambda>c. Inr (shift 1 c))) = Inr d1"
      "assign d1 ''eodRet''
         (apply2 d1 ''Close'' ''past_Close'' (\<lambda>cl pc. fsub (fdiv cl pc) (Fin 1))) = Inr d2"
      "drop_col d2 ''past_Close'' = Inr d"
    unfolding calEndOfDayRet_def bindE_Inr_iff by blast
  from drop_col_frame[OF s(3) assms(2)] assign_frame[OF s(2) assms(3)]
    assign_frame[OF s(1) assms(2)]
  show ?thesis by simp
qed

lemma signal_col_names:
  "signal_col MA_type F S \<noteq> ''past_Close''" "signal_col MA_type F S \<noteq> ''eodRet''"
  "signal_col MA_type F S \<noteq> MA_type @ ''_'' @ str_nat F @ ''_'' @ str_nat S @ ''_Return''"
proof -
  have l: "last (signal_col MA_type F S) = CHR ''l''" by (simp add: signal_col_def)
  show "signal_col MA_type F S \<noteq> ''past_Close''"
  proof
    assume "signal_col MA_type F S = ''past_Close''"
    then have "last (signal_col MA_type F S) = last ''past_Close''" by simp
    with l show False by simp
  qed
  show "signal_col MA_type F S \<noteq> ''eodRet''"
  proof
    assume "signal_col MA_type F S = ''eodRet''"
    then have "last (signal_col MA_type F S) = last ''eodRet''" by simp
    with l show False by simp
  qed
  show "signal_col MA_type F S \<noteq> MA_type @ ''_'' @ str_nat F @ ''_'' @ str_nat S @ ''_Return''"
  proof
    assume "signal_col MA_type F S = MA_type @ ''_'' @ str_nat F @ ''_'' @ str_nat S @ ''_Return''"
    then have "last (signal_col MA_type F S) =
        last (MA_type @ ''_'' @ str_nat F @ ''_'' @ str_nat S @ ''_Return'')" by simp
    with l show False by simp
  qed
qed

lemma FS_rest_rel:
  assumes fa: "frames_agree t d d'"
    and names: "sg \<noteq> ''past_Close''" "sg \<noteq> ''eodRet''" "sg \<noteq> rt"
  shows "rel_sum (=)
     (\<lambda>r r'. \<exists>c c'. get_col r sg = Inr c \<and> get_col r' sg = Inr c' \<and> agree_upto (Suc t) c c')
     (bindE (assign d sg (bindE (get_col d sg) (\<lambda>c. Inr (shift 1 c)))) (\<lambda>df4.
        bindE (calEndOfDayRet df4 ''Close'') (\<lambda>df5.
          assign df5 rt (apply2 df5 sg ''eodRet'' (\<lambda>s r. fmul s r)))))
     (bindE (assign d' sg (bindE (get_col d' sg) (\<lambda>c. Inr (shift 1 c)))) (\<lambda>df4.
        bindE (calEndOfDayRet df4 ''Close'') (\<lambda>df5.
          assign df5 rt (apply2 df5 sg ''eodRet'' (\<lambda>s r. fmul s r)))))"
    (is "rel_sum (=) ?R (?X d) (?X d')")
proof -
  have rel: "rel_sum (=) (frames_agree t) (?X d) (?X d')"
  proof (rule bindE_rel)
    show "rel_sum (=) (frames_agree t)
        (assign d sg (bindE (get_col d sg) (\<lambda>c. Inr (shift 1 c))))
        (assign d' sg (bindE (get_col d' sg) (\<lambda>c. Inr (shift 1 c))))"
      by (rule assign_rel[OF fa get_map_rel[OF fa]]) (rule agree_upto_mono[OF shift_agree])
  next
    fix d4 d4' assume f4: "frames_agree t d4 d4'"
    show "rel_sum (=) (frames_agree t)
        (bindE (calEndOfDayRet d4 ''Close'') (\<lambda>df5.
          assign df5 rt (apply2 df5 sg ''eodRet'' (\<lambda>s r. fmul s r))))
        (bindE (calEndOfDayRet d4' ''Close'') (\<lambda>df5.
          assign df5 rt (apply2 df5 sg ''eodRet'' (\<lambda>s r. fmul s r))))"
      by (rule bindE_rel[OF calEndOfDayRet_rel[OF f4]]) (simp add: assign_rel apply2_rel)
  qed
  have sig: "\<exists>c. get_col e sg = Inr c \<and> get_col r sg = Inr (shift 1 c)" if "?X e = Inr r" for e r
  proof -
    from that obtain d4 d5 where
      s: "assign e sg (bindE (get_col e sg) (\<lambda>c. Inr (shift 1 c))) = Inr d4"
        "calEndOfDayRet d4 ''Close'' = Inr d5"
        "assign d5 rt (apply2 d5 sg ''eodRet'' (\<lambda>s r. fmul s r)) = Inr r"
      unfolding bindE_Inr_iff by blast
    from s(1) obtain c where c: "get_col e sg = Inr c" "d4 = set_col e sg (shift 1 c)"
      unfolding assign_def bindE_Inr_iff by auto
    from assign_frame[OF s(3) names(3)] calEndOfDayRet_frame[OF s(2) names(1,2)] c
    have "get_col r sg = Inr (shift 1 c)" by (simp add: get_col_set_col)
    with c show ?thesis by blast
  qed
  show ?thesis
  proof (cases "?X d")
    case (Inl e)
    with rel show ?thesis by (cases "?X d'") simp_all
  next
    case (Inr r)
    with rel obtain r' where r': "?X d' = Inr r'" by (cases "?X d'") simp_all
    from sig[OF Inr] obtain c where c: "get_col d sg = Inr c" "get_col r sg = Inr (shift 1 c)"
      by blast
    from sig[OF r'] obtain c' where c': "get_col d' sg = Inr c'" "get_col r' sg = Inr (shift 1 c')"
      by blast
    from frames_agree_get[OF fa, of sg] c c' have "agree_upto t c c'" by simp
    then have "agree_upto (Suc t) (shift 1 c) (shift 1 c')" by (rule shift_agree)
    with c c' Inr r' show ?thesis by simp
  qed
qed

lemma create_FS_ret_rel:
  assumes fa: "frames_agree t df df'"
  shows "rel_sum (=)
     (\<lambda>r r'. \<exists>c c'. get_col r (signal_col MA_type F S) = Inr c \<and>
        get_col r' (signal_col MA_type F S) = Inr c' \<and> agree_upto (Suc t) c c')
     (create_FS_ret df F S MA_type col) (create_FS_ret df' F S MA_type col)"
  unfolding create_FS_ret_def Let_def signal_col_def[symmetric]
  by (intro bindE_rel[where R = "frames_agree t"] ensure_MA_rel fa assign_rel apply2_rel
      FS_rest_rel signal_col_names)

text \<open>
  Claim C4. Two frames agree before row t when they have the same columns, of the same
  lengths, with the same values in the rows before t: the second is the first with the
  bars at t and later, and everything computed from them, changed at will. On two such
  frames \<open>create_FS_ret\<close> fails on both with the same error or succeeds on both, for
  every fast and slow window, type of average and source column, and the two signal columns
  are equal in every row up to and including t: the signal at t is a function of the rows
  before t.
\<close>

theorem create_FS_ret_no_look_ahead:
  assumes fa: "frames_agree t df df'"
  shows "(\<forall>e. create_FS_ret df F S MA_type col = Inl e \<longleftrightarrow>
              create_FS_ret df' F S MA_type col = Inl e) \<and>
     (\<forall>r. create_FS_ret df F S MA_type col = Inr r \<longrightarrow>
        (\<exists>r' sg sg'. create_FS_ret df' F S MA_type col = Inr r' \<and>
           get_col r (signal_col MA_type F S) = Inr sg \<and>
           get_col r' (signal_col MA_type F S) = Inr sg' \<and> length sg = length sg' \<and>
           (\<forall>i. i \<le> t \<and> i < length sg \<longrightarrow> sg ! i = sg' ! i)))"
proof -
  let ?X = "create_FS_ret df F S MA_type col"
  let ?X' = "create_FS_ret df' F S MA_type col"
  note rel = create_FS_ret_rel[OF fa, of MA_type F S col]
  have errs: "\<forall>e. ?X = Inl e \<longleftrightarrow> ?X' = Inl e"
    using rel by (cases ?X; cases ?X') simp_all
  have vals: "\<exists>r' sg sg'. ?X' = Inr r' \<and>
           get_col r (signal_col MA_type F S) = Inr sg \<and>
           get_col r' (signal_col MA_type F S) = Inr sg' \<and> length sg = length sg' \<and>
           (\<forall>i. i \<le> t \<and> i < length sg \<longrightarrow> sg ! i = sg' ! i)" if r: "?X = Inr r" for r
  proof -
    from rel r obtain r' where r': "?X' = Inr r'" by (cases ?X') simp_all
    from rel r r' obtain sg sg' where
      s: "get_col r (signal_col MA_type F S) = Inr sg"
        "get_col r' (signal_col MA_type F S) = Inr sg'" "agree_upto (Suc t) sg sg'"
      by auto
    from s(3) have "length sg = length sg'" by (simp add: agree_upto_def)
    moreover have "\<forall>i. i \<le> t \<and> i < length sg \<longrightarrow> sg ! i = sg' ! i"
      using agree_upto_nth[OF s(3)] by simp
    ultimately show ?thesis using r' s by blast
  qed
  from errs vals show ?thesis by blast
qed

lemma upt4: "[0..<4] = [0, 1, 2, 3]" by (simp add: upt_rec)

theorem create_FS_ret_no_look_ahead_witness:
  "frames_agree 2 [(''Close'', [Fin 1, Fin 2, Fin 3, Fin 4])]
                  [(''Close'', [Fin 1, Fin 2, Fin 0, Fin 0])] \<and>
   (\<exists>r r'. create_FS_ret [(''Close'', [Fin 1, Fin 2, Fin 3, Fin 4])] 1 2 ''SMA'' ''Close'' = Inr r \<and>
      create_FS_ret [(''Close'', [Fin 1, Fin 2, Fin 0, Fin 0])] 1 2 ''SMA'' ''Close'' = Inr r' \<and>
      get_col r ''SMA_1_2_Signal'' = Inr [NaN, Fin (- 1), Fin 1, Fin 1] \<and>
      get_col r' ''SMA_1_2_Signal'' = Inr [NaN, Fin (- 1), Fin 1, Fin (- 1)])"
proof -
  let ?df = "[(''Close'', [Fin 1, Fin 2, Fin 3, Fin 4])]"
  let ?df' = "[(''Close'', [Fin 1, Fin 2, Fin 0, Fin 0])]"
  have s1: "str_nat (Suc 0) = ''1''" and s2: "str_nat 2 = ''2''"
    by (simp_all add: str_nat.simps digit_char_def)
  have fa: "frames_agree 2 ?df ?df'"
    by (simp add: frames_agree_def agree_upto_def)
  have run: "\<exists>r. create_FS_ret ?df 1 2 ''SMA'' ''Close'' = Inr r \<and>
      get_col r ''SMA_1_2_Signal'' = Inr [NaN, Fin (- 1), Fin 1, Fin 1]"
    by (simp add: create_FS_ret_def ensure_MA_def calSMA_def calEndOfDayRet_def Let_def
        assign_def apply2_def bindE_def drop_col_def columns_def del_col_def get_col_def s1 s2
        rolling_mean_def window_at_def all_fin_def mean_fin_def upt4 shift_def fgt_def)
  have run': "\<exists>r. create_FS_ret ?df' 1 2 ''SMA'' ''Close'' = Inr r \<and>
      get_col r ''SMA_1_2_Signal'' = Inr [NaN, Fin (- 1), Fin 1, Fin (- 1)]"
    by (simp add: create_FS_ret_def ensure_MA_def calSMA_def calEndOfDayRet_def Let_def
        assign_def apply2_def bindE_def drop_col_def columns_def del_col_def get_col_def s1 s2
        rolling_mean_def window_at_def all_fin_def mean_fin_def upt4 shift_def fgt_def)
  from create_FS_ret_no_look_ahead[OF fa, of 1 2 "''SMA''" "''Close''"] fa run run' show ?thesis
    by blast
qed

section \<open>The lagged average day range\<close>

lemma calPreviousDayrange_column:
  assumes "get_col df ''High'' = Inr h" "get_col df ''Low'' = Inr l"
  shows "\<exists>d. calPreviousDayrange df p = Inr d \<and>
     get_col d (av_col p) =
       Inr (shift 1 (rolling_mean p (map (\<lambda>(x, y). fsub x y) (zip h l))))"
  using assms
  by (simp add: calPreviousDayrange_def av_col_def assign_def apply2_def bindE_def drop_col_def
      table_simps)

lemma calPreviousDayrange_error:
  assumes "get_col df ''High'' = Inl e \<or> (\<exists>h. get_col df ''High'' = Inr h \<and> get_col df ''Low'' = Inl e)"
  shows "calPreviousDayrange df p = Inl e"
  using assms
  by (auto simp: calPreviousDayrange_def assign_def apply2_def bindE_def)

lemma calPreviousDayrange_rel:
  assumes fa: "frames_agree t df df'"
  shows "rel_sum (=)
     (\<lambda>r r'. \<exists>c c'. get_col r (av_col p) = Inr c \<and> get_col r' (av_col p) = Inr c' \<and>
        agree_upto (Suc t) c c')
     (calPreviousDayrange df p) (calPreviousDayrange df' p)"
proof -
  note gh = frames_agree_get[OF fa, of "''High''"]
  note gl = frames_agree_get[OF fa, of "''Low''"]
  show ?thesis
  proof (cases "get_col df ''High''")
    case (Inl e)
    with gh have "get_col df' ''High'' = Inl e" by (cases "get_col df' ''High''") simp_all
    with Inl show ?thesis by (simp add: calPreviousDayrange_error)
  next
    case h: (Inr h)
    with gh obtain h' where h': "get_col df' ''High'' = Inr h'" "agree_upto t h h'"
      by (cases "get_col df' ''High''") simp_all
    show ?thesis
    proof (cases "get_col df ''Low''")
      case (Inl e)
      with gl have "get_col df' ''Low'' = Inl e" by (cases "get_col df' ''Low''") simp_all
      with Inl h h' show ?thesis by (simp add: calPreviousDayrange_error)
    next
      case l: (Inr l)
      with gl obtain l' where l': "get_col df' ''Low'' = Inr l'" "agree_upto t l l'"
        by (cases "get_col df' ''Low''") simp_all
      from calPreviousDayrange_column[OF h l, of p] obtain d where
        d: "calPreviousDayrange df p = Inr d"
          "get_col d (av_col p) = Inr (shift 1 (rolling_mean p (map (\<lambda>(x, y). fsub x y) (zip h l))))"
        by blast
      from calPreviousDayrange_column[OF h'(1) l'(1), of p] obtain d' where
        d': "calPreviousDayrange df' p = Inr d'"
          "get_col d' (av_col p) = Inr (shift 1 (rolling_mean p (map (\<lambda>(x, y). fsub x y) (zip h' l'))))"
        by blast
      have "agree_upto (Suc t) (shift 1 (rolling_mean p (map (\<lambda>(x, y). fsub x y) (zip h l))))
          (shift 1 (rolling_mean p (map (\<lambda>(x, y). fsub x y) (zip h' l'))))"
        by (intro shift_agree rolling_mean_agree map2_agree h'(2) l'(2))
      with d d' show ?thesis by simp
    qed
  qed
qed

lemma take_drop_map_nth: "a + w \<le> length xs \<Longrightarrow> take w (drop a xs) = map ((!) xs) [a..<a + w]"
  by (rule nth_equalityI) simp_all

lemma window_at_map_nth:
  assumes "1 \<le> w" "w \<le> t" "t \<le> length xs"
  shows "window_at w xs (t - 1) = map ((!) xs) [t - w..<t]"
proof -
  have "t - 1 + 1 - w = t - w" "t - w + w = t" using assms by simp_all
  with take_drop_map_nth[of "t - w" w xs] assms show ?thesis by (simp add: window_at_def)
qed

lemma avg_range_value:
  assumes len: "length h = length l" and w: "1 \<le> w" "w \<le> t" and t: "t < length h"
    and fin: "\<forall>j. t - w \<le> j \<and> j < t \<longrightarrow> is_fin (h ! j) \<and> is_fin (l ! j)"
  shows "shift 1 (rolling_mean w (map (\<lambda>(x, y). fsub x y) (zip h l))) ! t =
     Fin (sum_list (map (\<lambda>j. the_fin (h ! j) - the_fin (l ! j)) [t - w..<t]) / real w)"
proof -
  let ?dr = "map (\<lambda>(x, y). fsub x y) (zip h l)"
  have ldr: "length ?dr = length h" using len by simp
  have t0: "t \<noteq> 0" using w by simp
  have win: "window_at w ?dr (t - 1) = map ((!) ?dr) [t - w..<t]"
    using w t ldr by (intro window_at_map_nth) simp_all
  have cell: "?dr ! j = Fin (the_fin (h ! j) - the_fin (l ! j))" if "t - w \<le> j" "j < t" for j
  proof -
    from that fin obtain a b where "h ! j = Fin a" "l ! j = Fin b"
      by (cases "h ! j"; cases "l ! j") auto
    moreover have "j < length h" "j < length l" using that t len by simp_all
    ultimately show ?thesis by (simp add: fsub_def)
  qed
  have win2: "window_at w ?dr (t - 1) =
      map (\<lambda>j. Fin (the_fin (h ! j) - the_fin (l ! j))) [t - w..<t]"
    unfolding win using cell by (intro map_cong) simp_all
  have af: "all_fin (window_at w ?dr (t - 1))"
    unfolding win2 by (simp add: all_fin_def list_all_iff)
  have mf: "mean_fin (window_at w ?dr (t - 1)) =
      sum_list (map (\<lambda>j. the_fin (h ! j) - the_fin (l ! j)) [t - w..<t]) / real w"
    unfolding win2 using w by (simp add: mean_fin_def comp_def)
  have "rolling_mean w ?dr ! (t - 1) = Fin (mean_fin (window_at w ?dr (t - 1)))"
    using w t ldr af by (simp add: rolling_mean_nth)
  with t t0 ldr mf show ?thesis
    using shift_one_nth[of t "rolling_mean w ?dr"] by (simp add: length_rolling_mean)
qed

text \<open>
  Claim C6. For a window w of at least 1 and a row t with \<open>w \<le> t\<close>, where the highs
  and lows of the rows \<open>t - w\<close> to \<open>t - 1\<close> are numbers, the lagged average day range
  at t is the arithmetic mean of high minus low over those rows. On two frames that agree
  before row t, \<open>calPreviousDayrange\<close> fails on both or succeeds on both, and the two
  columns are equal in every row up to and including t: changing bar t or a later bar
  leaves the value at t as it is.
\<close>

theorem calPreviousDayrange_lagged_mean:
  "(get_col df ''High'' = Inr h \<and> get_col df ''Low'' = Inr l \<and> length h = length l \<and>
    1 \<le> w \<and> w \<le> t \<and> t < length h \<and>
    (\<forall>j. t - w \<le> j \<and> j < t \<longrightarrow> is_fin (h ! j) \<and> is_fin (l ! j)) \<longrightarrow>
      (\<exists>d av. calPreviousDayrange df w = Inr d \<and> get_col d (av_col w) = Inr av \<and>
         length av = length h \<and>
         av ! t = Fin (sum_list (map (\<lambda>j. the_fin (h ! j) - the_fin (l ! j)) [t - w..<t])
                       / real w))) \<and>
   (frames_agree t df df' \<longrightarrow>
      (\<forall>e. calPreviousDayrange df w = Inl e \<longleftrightarrow> calPreviousDayrange df' w = Inl e) \<and>
      (\<forall>d. calPreviousDayrange df w = Inr d \<longrightarrow>
         (\<exists>d' av av'. calPreviousDayrange df' w = Inr d' \<and>
            get_col d (av_col w) = Inr av \<and> get_col d' (av_col w) = Inr av' \<and>
            length av = length av' \<and>
            (\<forall>i. i \<le> t \<and> i < length av \<longrightarrow> av ! i = av' ! i))))"
proof (intro conjI impI)
  assume a: "get_col df ''High'' = Inr h \<and> get_col df ''Low'' = Inr l \<and> length h = length l \<and>
    1 \<le> w \<and> w \<le> t \<and> t < length h \<and>
    (\<forall>j. t - w \<le> j \<and> j < t \<longrightarrow> is_fin (h ! j) \<and> is_fin (l ! j))"
  then have g: "get_col df ''High'' = Inr h" "get_col df ''Low'' = Inr l"
    and len: "length h = length l" and w: "1 \<le> w" "w \<le> t" and t: "t < length h"
    and fin: "\<forall>j. t - w \<le> j \<and> j < t \<longrightarrow> is_fin (h ! j) \<and> is_fin (l ! j)"
    by simp_all
  from calPreviousDayrange_column[OF g, of w] obtain d where
    d: "calPreviousDayrange df w = Inr d"
      "get_col d (av_col w) = Inr (shift 1 (rolling_mean w (map (\<lambda>(x, y). fsub x y) (zip h l))))"
    by blast
  have "length (shift 1 (rolling_mean w (map (\<lambda>(x, y). fsub x y) (zip h l)))) = length h"
    using len by (simp add: length_shift length_rolling_mean)
  with d avg_range_value[OF len w t fin]
  show "\<exists>d av. calPreviousDayrange df w = Inr d \<and> get_col d (av_col w) = Inr av \<and>
         length av = length h \<and>
         av ! t = Fin (sum_list (map (\<lambda>j. the_fin (h ! j) - the_fin (l ! j)) [t - w..<t])
                       / real w)"
    by blast
next
  assume fa: "frames_agree t df df'"
  note rel = calPreviousDayrange_rel[OF fa, of w]
  show "\<forall>e. calPreviousDayrange df w = Inl e \<longleftrightarrow> calPreviousDayrange df' w = Inl e"
    using rel by (cases "calPreviousDayrange df w"; cases "calPreviousDayrange df' w") simp_all
  show "\<forall>d. calPreviousDayrange df w = Inr d \<longrightarrow>
         (\<exists>d' av av'. calPreviousDayrange df' w = Inr d' \<and>
            get_col d (av_col w) = Inr av \<and> get_col d' (av_col w) = Inr av' \<and>
            length av = length av' \<and>
            (\<forall>i. i \<le> t \<and> i < length av \<longrightarrow> av ! i = av' ! i))"
  proof (intro allI impI)
    fix d assume r: "calPreviousDayrange df w = Inr d"
    from rel r obtain d' where r': "calPreviousDayrange df' w = Inr d'"
      by (cases "calPreviousDayrange df' w") simp_all
    from rel r r' obtain av av' where
      s: "get_col d (av_col w) = Inr av" "get_col d' (av_col w) = Inr av'"
        "agree_upto (Suc t) av av'"
      by auto
    from s(3) have "length av = length av'" by (simp add: agree_upto_def)
    moreover have "\<forall>i. i \<le> t \<and> i < length av \<longrightarrow> av ! i = av' ! i"
      using agree_upto_nth[OF s(3)] by simp
    ultimately show "\<exists>d' av av'. calPreviousDayrange df' w = Inr d' \<and>
            get_col d (av_col w) = Inr av \<and> get_col d' (av_col w) = Inr av' \<and>
            length av = length av' \<and>
            (\<forall>i. i \<le> t \<and> i < length av \<longrightarrow> av ! i = av' ! i)"
      using r' s by blast
  qed
qed

theorem calPreviousDayrange_lagged_mean_witness:
  "frames_agree 2 [(''High'', [Fin 3, Fin 5, Fin 7]), (''Low'', [Fin 1, Fin 2, Fin 3])]
                  [(''High'', [Fin 3, Fin 5, Fin 90]), (''Low'', [Fin 1, Fin 2, Fin 50])] \<and>
   (\<exists>d av d' av'.
      calPreviousDayrange [(''High'', [Fin 3, Fin 5, Fin 7]), (''Low'', [Fin 1, Fin 2, Fin 3])] 2
        = Inr d \<and>
      calPreviousDayrange [(''High'', [Fin 3, Fin 5, Fin 90]), (''Low'', [Fin 1, Fin 2, Fin 50])] 2
        = Inr d' \<and>
      get_col d ''Prev_2_AvDayrange'' = Inr av \<and> get_col d' ''Prev_2_AvDayrange'' = Inr av' \<and>
      av ! 2 = Fin (5 / 2) \<and> av' ! 2 = Fin (5 / 2))"
proof -
  let ?h = "[Fin 3, Fin 5, Fin 7]"
  let ?l = "[Fin 1, Fin 2, Fin 3]"
  let ?df = "[(''High'', ?h), (''Low'', ?l)]"
  let ?df' = "[(''High'', [Fin 3, Fin 5, Fin 90]), (''Low'', [Fin 1, Fin 2, Fin 50])]"
  have s2: "str_nat 2 = ''2''" by (simp add: str_nat.simps digit_char_def)
  have avn: "av_col 2 = ''Prev_2_AvDayrange''" by (simp add: av_col_def s2)
  have fa: "frames_agree 2 ?df ?df'"
    by (simp add: frames_agree_def agree_upto_def)
  have hyp: "get_col ?df ''High'' = Inr ?h \<and> get_col ?df ''Low'' = Inr ?l \<and>
    length ?h = length ?l \<and> (1::nat) \<le> 2 \<and> (2::nat) \<le> 2 \<and> 2 < length ?h \<and>
    (\<forall>j. 2 - 2 \<le> j \<and> j < 2 \<longrightarrow> is_fin (?h ! j) \<and> is_fin (?l ! j))"
    by (auto simp: get_col_def less_Suc_eq numeral_2_eq_2)
  have upt: "[0..<2] = [0, 1]" by (simp add: upt_rec)
  note inst = calPreviousDayrange_lagged_mean[of ?df ?h ?l 2 2 ?df']
  from inst[THEN conjunct1, rule_format, OF hyp]
  obtain d av where d: "calPreviousDayrange ?df 2 = Inr d" "get_col d (av_col 2) = Inr av"
    "length av = length ?h"
    "av ! 2 = Fin (sum_list (map (\<lambda>j. the_fin (?h ! j) - the_fin (?l ! j)) [2 - 2..<2]) / real 2)"
    by blast
  from inst[THEN conjunct2, rule_format, OF fa, THEN conjunct2, rule_format, OF d(1)]
  obtain d' av0 av' where d': "calPreviousDayrange ?df' 2 = Inr d'"
    "get_col d (av_col 2) = Inr av0" "get_col d' (av_col 2) = Inr av'"
    "\<forall>i. i \<le> 2 \<and> i < length av0 \<longrightarrow> av0 ! i = av' ! i"
    by blast
  from d(2) d'(2) have same: "av0 = av" by simp
  have v: "av ! 2 = Fin (5 / 2)" using d(4) by (simp add: upt)
  from d'(4) d(3) same have "av ! 2 = av' ! 2" by simp
  with v have v': "av' ! 2 = Fin (5 / 2)" by simp
  from fa d(1,2) d'(1,3) v v' show ?thesis unfolding avn by blast
qed


end
